theory Spec2Isabelle
  imports Main "HOL-Library.Word"
begin

section \<open>JavaScript values and built-ins used by the worker\<close>

text \<open>
  A number is an integer from \<open>- 2^53\<close> to \<open>2^53 - 1\<close>, read off a 54-bit word with \<open>sint\<close>:
  JavaScript holds each of them exactly and writes it with all its digits. Fractions and
  larger numbers are not values of the model.
\<close>

type_synonym number = "54 word"

text \<open>
  Values obtained by parsing JSON (\<^verbatim>\<open>res.json()\<close>, \<^verbatim>\<open>req.body\<close>). \<open>JObj\<close> lists the own
  properties in enumeration order, with distinct keys. A \<open>string\<close> is a sequence of UTF-16
  code units below 256.
\<close>

datatype json =
    JNull
  | JBool bool
  | JNum number
  | JStr string
  | JArr "json list"
  | JObj "(string \<times> json) list"

text \<open>
  A thrown JavaScript value, as far as the handler's \<^verbatim>\<open>catch\<close> looks at it:
  \<^verbatim>\<open>err.message\<close> and \<^verbatim>\<open>String(err)\<close>.
\<close>

datatype thrown = Thrown (message: string) (as_string: string)

text \<open>\<^verbatim>\<open>new Error(msg)\<close> and the \<^verbatim>\<open>TypeError\<close> of reading a property of \<^verbatim>\<open>null\<close> (V8's text).\<close>

definition js_Error :: "string \<Rightarrow> thrown" where
  "js_Error msg = Thrown msg (if msg = [] then ''Error'' else ''Error: '' @ msg)"

definition null_read_error :: "string \<Rightarrow> thrown" where
  "null_read_error k =
     (let msg = ''Cannot read properties of null (reading '' @ [CHR 0x27] @ k @ [CHR 0x27] @ '')''
      in Thrown msg (''TypeError: '' @ msg))"

text \<open>
  The \<^verbatim>\<open>TypeError\<close> of \<^verbatim>\<open>String(x)\<close> on an object that has no callable \<^verbatim>\<open>toString\<close>
  (V8's text).
\<close>

definition primitive_error :: thrown where
  "primitive_error =
     Thrown ''Cannot convert object to primitive value''
            ''TypeError: Cannot convert object to primitive value''"

text \<open>
  \<^verbatim>\<open>x?.k\<close>: \<open>None\<close> is \<^verbatim>\<open>undefined\<close>. Only objects carry the keys the worker reads
  (none of them is a built-in property of a string, a number, a boolean or an array).
\<close>

fun opt_member :: "json \<Rightarrow> string \<Rightarrow> json option" where
  "opt_member (JObj kvs) k = map_of kvs k"
| "opt_member _ k = None"

text \<open>\<^verbatim>\<open>x.k\<close>: reading a property of \<^verbatim>\<open>null\<close> throws.\<close>

fun member :: "json \<Rightarrow> string \<Rightarrow> thrown + json option" where
  "member JNull k = Inl (null_read_error k)"
| "member v k = Inr (opt_member v k)"

text \<open>\<^verbatim>\<open>a ?? b\<close> on a property that may be \<^verbatim>\<open>undefined\<close> or \<^verbatim>\<open>null\<close>.\<close>

fun nullish :: "json option \<Rightarrow> json \<Rightarrow> json" where
  "nullish None d = d"
| "nullish (Some JNull) d = d"
| "nullish (Some v) d = v"

text \<open>Truthiness of a value that may be \<^verbatim>\<open>undefined\<close>.\<close>

fun truthy :: "json option \<Rightarrow> bool" where
  "truthy None = False"
| "truthy (Some JNull) = False"
| "truthy (Some (JBool b)) = b"
| "truthy (Some (JNum n)) = (n \<noteq> 0)"
| "truthy (Some (JStr s)) = (s \<noteq> [])"
| "truthy (Some (JArr xs)) = True"
| "truthy (Some (JObj kvs)) = True"

subsection \<open>Numbers and strings\<close>

definition digit_char :: "nat \<Rightarrow> char" where
  "digit_char n = ''0123456789abcdef'' ! (n mod 16)"

fun digits :: "nat \<Rightarrow> string" where
  "digits n = (if n < 10 then [digit_char n] else digits (n div 10) @ [digit_char (n mod 10)])"

declare digits.simps [simp del]

text \<open>\<^verbatim>\<open>String(n)\<close> for a number \<open>n\<close>.\<close>

definition show_int :: "number \<Rightarrow> string" where
  "show_int n = (if sint n < 0 then CHR ''-'' # digits (nat (- sint n)) else digits (nat (sint n)))"

fun join_comma :: "string list \<Rightarrow> string" where
  "join_comma [] = []"
| "join_comma [s] = s"
| "join_comma (s # t # ss) = s @ '','' @ join_comma (t # ss)"

text \<open>
  \<^verbatim>\<open>String(v)\<close>. An array is joined with commas from left to right, \<^verbatim>\<open>null\<close> elements
  giving the empty string. An object is written by the \<^verbatim>\<open>toString\<close> it inherits, unless it
  has a key \<^verbatim>\<open>toString\<close> of its own: a parsed value is never callable, the inherited
  \<^verbatim>\<open>valueOf\<close> returns the object itself, and the conversion throws.
\<close>

fun js_String :: "json \<Rightarrow> thrown + string"
  and js_join :: "json list \<Rightarrow> thrown + string" where
  "js_String JNull = Inr ''null''"
| "js_String (JBool b) = Inr (if b then ''true'' else ''false'')"
| "js_String (JNum n) = Inr (show_int n)"
| "js_String (JStr s) = Inr s"
| "js_String (JArr xs) = js_join xs"
| "js_String (JObj kvs) =
     (if map_of kvs ''toString'' \<noteq> None then Inl primitive_error else Inr ''[object Object]'')"
| "js_join [] = Inr []"
| "js_join [x] = (if x = JNull then Inr [] else js_String x)"
| "js_join (x # y # ys) =
     (case (if x = JNull then Inr [] else js_String x) of
        Inl err \<Rightarrow> Inl err
      | Inr s \<Rightarrow>
          (case js_join (y # ys) of
             Inl err \<Rightarrow> Inl err
           | Inr t \<Rightarrow> Inr (s @ '','' @ t)))"

text \<open>\<^verbatim>\<open>String(x)\<close> where \<open>x\<close> may be \<^verbatim>\<open>undefined\<close>.\<close>

fun js_String_opt :: "json option \<Rightarrow> thrown + string" where
  "js_String_opt None = Inr ''undefined''"
| "js_String_opt (Some v) = js_String v"

text \<open>\<^verbatim>\<open>JSON.stringify\<close> on parsed JSON.\<close>

definition hex4 :: "nat \<Rightarrow> string" where
  "hex4 n = [digit_char (n div 4096), digit_char (n div 256), digit_char (n div 16), digit_char n]"

definition quote_char :: "char \<Rightarrow> string" where
  "quote_char c =
     (if c = CHR 0x22 then [CHR 0x5C, CHR 0x22]
      else if c = CHR 0x5C then [CHR 0x5C, CHR 0x5C]
      else if c = CHR 0x08 then [CHR 0x5C, CHR ''b'']
      else if c = CHR 0x0C then [CHR 0x5C, CHR ''f'']
      else if c = CHR 0x0A then [CHR 0x5C, CHR ''n'']
      else if c = CHR 0x0D then [CHR 0x5C, CHR ''r'']
      else if c = CHR 0x09 then [CHR 0x5C, CHR ''t'']
      else if (of_char c :: nat) < 32 then [CHR 0x5C, CHR ''u''] @ hex4 (of_char c)
      else [c])"

definition quote :: "string \<Rightarrow> string" where
  "quote s = [CHR 0x22] @ concat (map quote_char s) @ [CHR 0x22]"

fun stringify :: "json \<Rightarrow> string" where
  "stringify JNull = ''null''"
| "stringify (JBool b) = (if b then ''true'' else ''false'')"
| "stringify (JNum n) = show_int n"
| "stringify (JStr s) = quote s"
| "stringify (JArr xs) = ''['' @ join_comma (map stringify xs) @ '']''"
| "stringify (JObj kvs) =
     ''{'' @ join_comma (map (\<lambda>(k, v). quote k @ '':'' @ stringify v) kvs) @ ''}''"

text \<open>\<^verbatim>\<open>s.startsWith(p)\<close>.\<close>

definition startsWith :: "string \<Rightarrow> string \<Rightarrow> bool" where
  "startsWith s p = (take (length p) s = p)"

text \<open>\<^verbatim>\<open>s.trim()\<close>: the white space and line terminators below 256.\<close>

definition is_space :: "char \<Rightarrow> bool" where
  "is_space c = (c \<in> set [CHR 0x09, CHR 0x0A, CHR 0x0B, CHR 0x0C, CHR 0x0D, CHR 0x20, CHR 0xA0])"

definition trim :: "string \<Rightarrow> string" where
  "trim s = rev (dropWhile is_space (rev (dropWhile is_space s)))"

text \<open>\<^verbatim>\<open>s.toLowerCase()\<close> on code units below 256.\<close>

definition lower_char :: "char \<Rightarrow> char" where
  "lower_char c =
     (let n = (of_char c :: nat)
      in if (65 \<le> n \<and> n \<le> 90) \<or> (192 \<le> n \<and> n \<le> 222 \<and> n \<noteq> 215) then char_of (n + 32) else c)"

definition toLowerCase :: "string \<Rightarrow> string" where
  "toLowerCase s = map lower_char s"

text \<open>\<^verbatim>\<open>s.replace(p, '')\<close>: the first occurrence of \<open>p\<close> is removed.\<close>

fun remove_first :: "string \<Rightarrow> string \<Rightarrow> string" where
  "remove_first p [] = []"
| "remove_first p (c # cs) =
     (if startsWith (c # cs) p then drop (length p) (c # cs) else c # remove_first p cs)"

text \<open>
  \<^verbatim>\<open>encodeURIComponent\<close>: unreserved characters stay, every other code unit is
  percent-encoded through its UTF-8 bytes.
\<close>

definition unreserved :: "char \<Rightarrow> bool" where
  "unreserved c =
     (c \<in> set (''ABCDEFGHIJKLMNOPQRSTUVWXYZabcdefghijklmnopqrstuvwxyz0123456789-_.!~*()'' @ [CHR 0x27]))"

definition upper_hex :: "nat \<Rightarrow> char" where
  "upper_hex n = ''0123456789ABCDEF'' ! (n mod 16)"

definition percent :: "nat \<Rightarrow> string" where
  "percent b = [CHR ''%'', upper_hex (b div 16), upper_hex b]"

definition encode_char :: "char \<Rightarrow> string" where
  "encode_char c =
     (let n = (of_char c :: nat)
      in if unreserved c then [c]
         else if n < 128 then percent n
         else percent (192 + n div 64) @ percent (128 + n mod 64))"

definition encodeURIComponent :: "string \<Rightarrow> string" where
  "encodeURIComponent s = concat (map encode_char s)"

section \<open>The outside world: database, network, clock\<close>

text \<open>Rows of \<^verbatim>\<open>meli_scan_jobs\<close> and \<^verbatim>\<open>meli_oauth_tokens\<close> as the queries select them.\<close>

record job =
  j_id :: int
  j_site_id :: string
  j_category_id :: string
  j_status :: string
  j_attempts :: "int option"

record token_row =
  t_user_id :: "string option"
  t_access_token :: "string option"
  t_refresh_token :: "string option"
  t_token_type :: "string option"
  t_scope :: "string option"
  t_expires_at :: "string option"
  t_updated_at :: "string option"
  t_created_at :: "string option"

text \<open>The object given to \<^verbatim>\<open>.update(...)\<close> on a job; \<open>u_attempts = None\<close>: no such key.\<close>

record job_update =
  u_status :: string
  u_attempts :: "int option"
  u_updated_at :: string
  u_last_error :: "string option"

text \<open>The object written to \<^verbatim>\<open>meli_oauth_tokens\<close>; \<open>w_user_id = None\<close>: no such key.\<close>

record token_write =
  w_user_id :: "string option"
  w_access_token :: string
  w_refresh_token :: string
  w_token_type :: json
  w_scope :: "json option"
  w_expires_at :: string
  w_updated_at :: string

text \<open>A row upserted into \<^verbatim>\<open>meli_category_items\<close>.\<close>

record item_row =
  i_job_id :: int
  i_site_id :: string
  i_category_id :: string
  i_item_id :: string
  i_title :: json
  i_permalink :: json
  i_price :: json
  i_currency_id :: json
  i_seller_id :: json
  i_raw :: json

text \<open>A call of \<^verbatim>\<open>fetch\<close>; \<open>f_body\<close> holds the form parameters of a POST.\<close>

record fetch_request =
  f_method :: string
  f_url :: string
  f_headers :: "(string \<times> string) list"
  f_body :: "(string \<times> string) list"

text \<open>
  A response: its status, its body as received, and what \<^verbatim>\<open>res.json()\<close> makes of that body
  (\<open>None\<close>: the body is not JSON and the promise rejects). The worker reads the status and
  the parsed body, never the text.
\<close>

record fetch_response =
  r_status :: nat
  r_text :: string
  r_json :: "json option"

definition ok :: "fetch_response \<Rightarrow> bool" where
  "ok r = (200 \<le> r_status r \<and> r_status r \<le> 299)"

text \<open>\<^verbatim>\<open>await res.json().catch(() => ({}))\<close>.\<close>

definition json_or_empty :: "fetch_response \<Rightarrow> json" where
  "json_or_empty r = (case r_json r of None \<Rightarrow> JObj [] | Some v \<Rightarrow> v)"

text \<open>
  Every call that leaves the process, in the order the worker makes them:
  \<^item> \<open>SelectJobs site_id batch\<close>: the query for the pending jobs of a site, by ascending id,
    at most \<open>batch\<close> rows;
  \<^item> \<open>SelectLatestToken\<close>: the query for the credential updated last;
  \<^item> \<open>UpdateJob id u\<close>: the update \<open>u\<close> of the jobs whose id is \<open>id\<close>;
  \<^item> \<open>Fetch rq\<close>: an HTTP request;
  \<^item> \<open>UpsertToken w\<close>: the upsert of a credential on its user_id, and
    \<open>UpdateToken old w\<close>: the update of the credentials whose refresh token is \<open>old\<close>;
  \<^item> \<open>UpsertItems rows\<close>: the upsert of item rows on (site_id, item_id).
\<close>

datatype event =
    SelectJobs string number
  | SelectLatestToken
  | UpdateJob int job_update
  | Fetch fetch_request
  | UpsertToken token_write
  | UpdateToken string token_write
  | UpsertItems "item_row list"

text \<open>
  The environment answers each call from the calls made so far. The clock is part of it:
  \<open>now_iso\<close> is \<^verbatim>\<open>new Date().toISOString()\<close>, and \<open>expires_at_iso tr x\<close> is
  \<^verbatim>\<open>new Date(Date.now() + Number(x ?? 21600) * 1000).toISOString()\<close>, which can throw (a
  \<^verbatim>\<open>RangeError\<close> on an invalid date, a \<^verbatim>\<open>TypeError\<close> of the conversion to a number). \<open>select_jobs\<close> gives \<open>Inl\<close> the message of the query's
  error, else its data (\<open>None\<close>: \<^verbatim>\<open>null\<close>). The two client secrets are the environment
  variables the module needs to load at all (lines 3 to 10); the results of the updates of
  a job's row are not looked at by the worker and have no answer here.
\<close>

record env =
  ML_CLIENT_ID :: string
  ML_CLIENT_SECRET :: string
  select_jobs :: "event list \<Rightarrow> string \<Rightarrow> number \<Rightarrow> string + job list option"
  select_latest_token :: "event list \<Rightarrow> thrown + token_row option"
  fetch :: "event list \<Rightarrow> fetch_request \<Rightarrow> thrown + fetch_response"
  token_write_error :: "event list \<Rightarrow> event \<Rightarrow> thrown option"
  upsert_items_error :: "event list \<Rightarrow> item_row list \<Rightarrow> string option"
  now_iso :: "event list \<Rightarrow> string"
  expires_at_iso :: "event list \<Rightarrow> json option \<Rightarrow> thrown + string"

section \<open>Token store and token refresher\<close>

text \<open>\<^verbatim>\<open>!s\<close> for a nullable text column.\<close>

fun missing :: "string option \<Rightarrow> bool" where
  "missing None = True"
| "missing (Some s) = (s = [])"

definition getLatestToken :: "env \<Rightarrow> event list \<Rightarrow> (thrown + token_row) \<times> event list" where
  "getLatestToken e tr =
     (case select_latest_token e tr of
        Inl err \<Rightarrow> (Inl err, tr @ [SelectLatestToken])
      | Inr None \<Rightarrow>
          (Inl (js_Error ''No token found in meli_oauth_tokens (missing access_token or refresh_token)''),
           tr @ [SelectLatestToken])
      | Inr (Some data) \<Rightarrow>
          (if missing (t_access_token data) \<or> missing (t_refresh_token data)
           then (Inl (js_Error ''No token found in meli_oauth_tokens (missing access_token or refresh_token)''),
                 tr @ [SelectLatestToken])
           else (Inr data, tr @ [SelectLatestToken])))"

record refreshed =
  rf_access_token :: string
  rf_refresh_token :: string
  rf_expires_at :: string

definition refresh_request :: "env \<Rightarrow> string \<Rightarrow> fetch_request" where
  "refresh_request e refresh_token =
     \<lparr>f_method = ''POST'',
      f_url = ''https://api.mercadolibre.com/oauth/token'',
      f_headers = [(''content-type'', ''application/x-www-form-urlencoded'')],
      f_body = [(''grant_type'', ''refresh_token''),
                (''client_id'', ML_CLIENT_ID e),
                (''client_secret'', ML_CLIENT_SECRET e),
                (''refresh_token'', refresh_token)]\<rparr>"

text \<open>
  Lines 45 to 77 of \<^verbatim>\<open>refreshToken\<close>: the new pair is read off the response and stored. The
  three conversions to a string, the reading of a null response and the date can throw; the
  user's id is converted only when it is truthy.
\<close>

definition store_refreshed :: "env \<Rightarrow> string \<Rightarrow> json \<Rightarrow> event list \<Rightarrow> (thrown + refreshed) \<times> event list" where
  "store_refreshed e refresh_token json tr1 =
     (case member json ''access_token'' of
        Inl err \<Rightarrow> (Inl err, tr1)
      | Inr at \<Rightarrow>
     (case js_String_opt at of
        Inl err \<Rightarrow> (Inl err, tr1)
      | Inr access_token \<Rightarrow>
     (case js_String (nullish (opt_member json ''refresh_token'') (JStr refresh_token)) of
        Inl err \<Rightarrow> (Inl err, tr1)
      | Inr new_refresh_token \<Rightarrow>
     (case expires_at_iso e tr1 (opt_member json ''expires_in'') of
        Inl err \<Rightarrow> (Inl err, tr1)
      | Inr expires_at \<Rightarrow>
     (case (if truthy (opt_member json ''user_id'')
            then map_sum id Some (js_String_opt (opt_member json ''user_id''))
            else Inr None) of
        Inl err \<Rightarrow> (Inl err, tr1)
      | Inr user_id \<Rightarrow>
          (let w = \<lparr>w_user_id = user_id,
                    w_access_token = access_token,
                    w_refresh_token = new_refresh_token,
                    w_token_type = nullish (opt_member json ''token_type'') (JStr ''Bearer''),
                    w_scope = opt_member json ''scope'',
                    w_expires_at = expires_at,
                    w_updated_at = now_iso e tr1\<rparr>;
               ev = (if truthy (opt_member json ''user_id'')
                     then UpsertToken w else UpdateToken refresh_token w)
           in (case token_write_error e tr1 ev of
                 Some err \<Rightarrow> (Inl err, tr1 @ [ev])
               | None \<Rightarrow>
                   (Inr \<lparr>rf_access_token = access_token,
                         rf_refresh_token = new_refresh_token,
                         rf_expires_at = expires_at\<rparr>, tr1 @ [ev]))))))))"

definition refreshToken :: "env \<Rightarrow> string \<Rightarrow> event list \<Rightarrow> (thrown + refreshed) \<times> event list" where
  "refreshToken e refresh_token tr =
     (case fetch e tr (refresh_request e refresh_token) of
        Inl err \<Rightarrow> (Inl err, tr @ [Fetch (refresh_request e refresh_token)])
      | Inr res \<Rightarrow>
          (if \<not> ok res
           then (Inl (js_Error (''Refresh token failed: '' @ digits (r_status res) @ '' ''
                                  @ stringify (json_or_empty res))),
                 tr @ [Fetch (refresh_request e refresh_token)])
           else store_refreshed e refresh_token (json_or_empty res)
                  (tr @ [Fetch (refresh_request e refresh_token)])))"

section \<open>Marketplace client\<close>

definition public_request :: "string \<Rightarrow> fetch_request" where
  "public_request url =
     \<lparr>f_method = ''GET'', f_url = url,
      f_headers = [(''Accept'', ''application/json''), (''User-Agent'', ''KelokeTrendsBot/1.0'')],
      f_body = []\<rparr>"

definition private_request :: "string \<Rightarrow> string \<Rightarrow> fetch_request" where
  "private_request url accessToken =
     \<lparr>f_method = ''GET'', f_url = url,
      f_headers = [(''Authorization'', ''Bearer '' @ accessToken),
                   (''Accept'', ''application/json''), (''User-Agent'', ''KelokeTrendsBot/1.0'')],
      f_body = []\<rparr>"

definition mlGetPublic :: "env \<Rightarrow> string \<Rightarrow> event list \<Rightarrow> (thrown + fetch_response) \<times> event list" where
  "mlGetPublic e url tr = (fetch e tr (public_request url), tr @ [Fetch (public_request url)])"

definition mlGetPrivate :: "env \<Rightarrow> string \<Rightarrow> string \<Rightarrow> event list \<Rightarrow> (thrown + fetch_response) \<times> event list" where
  "mlGetPrivate e url accessToken tr =
     (fetch e tr (private_request url accessToken), tr @ [Fetch (private_request url accessToken)])"

text \<open>\<^verbatim>\<open>Array.isArray(x)\<close> and the elements of \<open>x\<close> (none unless it is an array).\<close>

fun isArray :: "json option \<Rightarrow> bool" where
  "isArray (Some (JArr xs)) = True"
| "isArray _ = False"

fun elements :: "json option \<Rightarrow> json list" where
  "elements (Some (JArr xs)) = xs"
| "elements _ = []"

definition extractItems :: "string \<Rightarrow> json \<Rightarrow> json list" where
  "extractItems category_id payload =
     (if isArray (opt_member payload ''results'') \<and> length (elements (opt_member payload ''results'')) > 0
      then elements (opt_member payload ''results'')
      else if isArray (Some payload) \<and> length (elements (Some payload)) > 0
      then elements (Some payload)
      else [])"

section \<open>Batch processor\<close>

text \<open>
  The request as the handler reads it. A body field is \<open>None\<close> when the key is absent;
  \<open>batch\<close> and \<open>limit\<close> are numbers when given (\<open>None\<close> also stands for \<^verbatim>\<open>null\<close>).
\<close>

record req_body =
  b_site_id :: "json option"
  b_country :: "json option"
  b_batch :: "number option"
  b_limit :: "number option"

record request =
  q_method :: string
  q_headers :: "string \<Rightarrow> string option"
  q_body :: "req_body option"

text \<open>The three shapes of an entry of \<^verbatim>\<open>results\<close>.\<close>

datatype result =
    JobOk int string nat string
  | JobFailed int string nat json
  | JobDbFailed int string string

text \<open>
  The JSON bodies the handler answers with: \<^verbatim>\<open>{ok:false, error}\<close>,
  \<^verbatim>\<open>{ok:true, msg:'no_jobs', site_id, batch, limit}\<close> and
  \<^verbatim>\<open>{ok:true, site_id, processed, inserted, token_source, token_len, results}\<close>.
  A reply pairs the HTTP status with the body.
\<close>

datatype reply_body =
    Failure string
  | NoJobs string number number
  | Summary string nat nat string nat "result list"

type_synonym reply = "nat \<times> reply_body"

text \<open>The variables the loop over the jobs reads and assigns.\<close>

record vars =
  accessToken :: string
  refreshTok :: string
  results :: "result list"
  processed :: nat
  inserted :: nat

definition empty_body :: req_body where
  "empty_body = \<lparr>b_site_id = None, b_country = None, b_batch = None, b_limit = None\<rparr>"

text \<open>Line 116; the conversion to a string can throw.\<close>

definition resolve_site_id :: "req_body \<Rightarrow> thrown + string" where
  "resolve_site_id body =
     js_String (nullish (b_site_id body)
                  (JStr (if b_country body = Some (JStr ''CL'') then ''MLC'' else ''MLC'')))"

text \<open>\<^verbatim>\<open>a || b\<close> on strings that may be \<^verbatim>\<open>undefined\<close>.\<close>

definition str_or :: "string option \<Rightarrow> string \<Rightarrow> string" where
  "str_or a b = (case a of None \<Rightarrow> b | Some s \<Rightarrow> if s = [] then b else s)"

text \<open>\<^verbatim>\<open>String(c)\<close> for a nullable text column.\<close>

definition column_String :: "string option \<Rightarrow> string" where
  "column_String c = (case c of None \<Rightarrow> ''null'' | Some s \<Rightarrow> s)"

text \<open>
  Lines 138 to 156: the bearer credential of the request, then the token source, the
  access token and the refresh token the loop starts with.
\<close>

definition incomingBearer :: "request \<Rightarrow> string" where
  "incomingBearer req =
     trim (str_or (Some (str_or (q_headers req ''authorization'')
                           (str_or (q_headers req ''Authorization'') []))) [])"

definition resolve_tokens ::
  "env \<Rightarrow> request \<Rightarrow> event list \<Rightarrow> (thrown + string \<times> string \<times> string) \<times> event list" where
  "resolve_tokens e req tr =
     (if incomingBearer req \<noteq> []
      then (case getLatestToken e tr of
              (Inl err, tr1) \<Rightarrow> (Inl err, tr1)
            | (Inr tok, tr1) \<Rightarrow>
                (Inr (''header'',
                      (if startsWith (toLowerCase (incomingBearer req)) ''bearer ''
                       then trim (drop 7 (incomingBearer req)) else incomingBearer req),
                      column_String (t_refresh_token tok)), tr1))
      else (case getLatestToken e tr of
              (Inl err, tr1) \<Rightarrow> (Inl err, tr1)
            | (Inr tok, tr1) \<Rightarrow>
                (Inr (''db'', column_String (t_access_token tok), column_String (t_refresh_token tok)), tr1)))"

definition isSeller :: "job \<Rightarrow> bool" where
  "isSeller job = startsWith (j_category_id job) ''SELLER:''"

text \<open>Lines 176 to 182.\<close>

definition job_url :: "string \<Rightarrow> number \<Rightarrow> job \<Rightarrow> string" where
  "job_url site_id limit job =
     (if isSeller job
      then (let sellerId = trim (remove_first ''SELLER:'' (j_category_id job))
            in ''https://api.mercadolibre.com/users/'' @ encodeURIComponent sellerId
               @ ''/items/search?limit='' @ encodeURIComponent (show_int limit))
      else ''https://api.mercadolibre.com/sites/'' @ encodeURIComponent site_id
           @ ''/search?category='' @ encodeURIComponent (j_category_id job)
           @ ''&limit='' @ encodeURIComponent (show_int limit))"

text \<open>The three updates of a job's row (lines 165, 195 and 232, 248).\<close>

definition processing_update :: "env \<Rightarrow> job \<Rightarrow> event list \<Rightarrow> event" where
  "processing_update e job tr =
     UpdateJob (j_id job)
       \<lparr>u_status = ''processing'',
        u_attempts = Some ((case j_attempts job of None \<Rightarrow> 0 | Some a \<Rightarrow> a) + 1),
        u_updated_at = now_iso e tr,
        u_last_error = None\<rparr>"

definition error_update :: "env \<Rightarrow> job \<Rightarrow> string \<Rightarrow> event list \<Rightarrow> event" where
  "error_update e job msg tr =
     UpdateJob (j_id job)
       \<lparr>u_status = ''error'', u_attempts = None, u_updated_at = now_iso e tr, u_last_error = Some msg\<rparr>"

definition done_update :: "env \<Rightarrow> job \<Rightarrow> event list \<Rightarrow> event" where
  "done_update e job tr =
     UpdateJob (j_id job)
       \<lparr>u_status = ''done'', u_attempts = None, u_updated_at = now_iso e tr, u_last_error = None\<rparr>"

text \<open>Lines 184 to 190: the public fetch, and for a seller job answered 401 the refresh and the retry.\<close>

definition fetch_listing ::
  "env \<Rightarrow> job \<Rightarrow> string \<Rightarrow> vars \<Rightarrow> event list \<Rightarrow> (thrown + fetch_response \<times> vars) \<times> event list" where
  "fetch_listing e job url v tr =
     (case mlGetPublic e url tr of
        (Inl err, tr1) \<Rightarrow> (Inl err, tr1)
      | (Inr resMl, tr1) \<Rightarrow>
          (if isSeller job \<and> r_status resMl = 401
           then (case refreshToken e (refreshTok v) tr1 of
                   (Inl err, tr2) \<Rightarrow> (Inl err, tr2)
                 | (Inr refreshed, tr2) \<Rightarrow>
                     (case mlGetPrivate e url (rf_access_token refreshed) tr2 of
                        (Inl err, tr3) \<Rightarrow> (Inl err, tr3)
                      | (Inr resMl2, tr3) \<Rightarrow>
                          (Inr (resMl2, v\<lparr>accessToken := rf_access_token refreshed,
                                          refreshTok := rf_refresh_token refreshed\<rparr>), tr3)))
           else (Inr (resMl, v), tr1)))"

text \<open>
  Lines 211 to 225: the row of one item. The first thing that can throw is the item_id: the
  reading of \<^verbatim>\<open>it.id\<close> on null, or its conversion to a string.
\<close>

fun isStringId :: "json \<Rightarrow> bool" where
  "isStringId (JStr s) = True"
| "isStringId _ = False"

text \<open>\<^verbatim>\<open>it.seller?.id\<close>.\<close>

definition seller_of :: "json \<Rightarrow> json option" where
  "seller_of it =
     (case opt_member it ''seller'' of
        None \<Rightarrow> None
      | Some JNull \<Rightarrow> None
      | Some s \<Rightarrow> opt_member s ''id'')"

definition item_row_of :: "job \<Rightarrow> string \<Rightarrow> json \<Rightarrow> thrown + item_row" where
  "item_row_of job site_id it =
     (case (if isStringId it then js_String it
            else (case member it ''id'' of Inl err \<Rightarrow> Inl err | Inr idv \<Rightarrow> js_String_opt idv)) of
        Inl err \<Rightarrow> Inl err
      | Inr item_id \<Rightarrow>
          Inr \<lparr>i_job_id = j_id job, i_site_id = site_id, i_category_id = j_category_id job,
               i_item_id = item_id,
               i_title = (if isStringId it then JNull else nullish (opt_member it ''title'') JNull),
               i_permalink = (if isStringId it then JNull else nullish (opt_member it ''permalink'') JNull),
               i_price = (if isStringId it then JNull else nullish (opt_member it ''price'') JNull),
               i_currency_id = (if isStringId it then JNull else nullish (opt_member it ''currency_id'') JNull),
               i_seller_id = (if isStringId it then JNull
                              else nullish (seller_of it) (nullish (opt_member it ''seller_id'') JNull)),
               i_raw = it\<rparr>)"

text \<open>\<^verbatim>\<open>items.map(f)\<close> where \<open>f\<close> may throw.\<close>

fun map_throw :: "('a \<Rightarrow> thrown + 'b) \<Rightarrow> 'a list \<Rightarrow> thrown + 'b list" where
  "map_throw f [] = Inr []"
| "map_throw f (x # xs) =
     (case f x of
        Inl err \<Rightarrow> Inl err
      | Inr y \<Rightarrow> (case map_throw f xs of Inl err \<Rightarrow> Inl err | Inr ys \<Rightarrow> Inr (y # ys)))"

text \<open>Lines 248 to 263.\<close>

definition complete_job :: "env \<Rightarrow> job \<Rightarrow> vars \<Rightarrow> json list \<Rightarrow> event list \<Rightarrow> (thrown + vars) \<times> event list" where
  "complete_job e job v items tr =
     (Inr (v\<lparr>results := results v @
                [JobOk (j_id job) (j_category_id job) (length items)
                   (if isSeller job then ''seller'' else ''category_public'')]\<rparr>),
      tr @ [done_update e job tr])"

text \<open>Lines 192 to 263: what is done with the response.\<close>

definition finish_job ::
  "env \<Rightarrow> string \<Rightarrow> job \<Rightarrow> vars \<Rightarrow> fetch_response \<Rightarrow> event list \<Rightarrow> (thrown + vars) \<times> event list" where
  "finish_job e site_id job v resMl tr =
     (let payload = json_or_empty resMl
      in if \<not> ok resMl
         then (Inr (v\<lparr>results := results v @
                       [JobFailed (j_id job) (j_category_id job) (r_status resMl) payload]\<rparr>),
               tr @ [error_update e job (''ML '' @ digits (r_status resMl) @ '' '' @ stringify payload) tr])
         else (let items = extractItems (j_category_id job) payload
               in if length items > 0
                  then (case map_throw (item_row_of job site_id) items of
                          Inl err \<Rightarrow> (Inl err, tr)
                        | Inr rows \<Rightarrow>
                            (case upsert_items_error e tr rows of
                               Some msg \<Rightarrow>
                                 (Inr (v\<lparr>results := results v @
                                          [JobDbFailed (j_id job) (j_category_id job) msg]\<rparr>),
                                  tr @ [UpsertItems rows,
                                        error_update e job (''DB upsert error: '' @ msg) (tr @ [UpsertItems rows])])
                             | None \<Rightarrow>
                                 complete_job e job (v\<lparr>inserted := inserted v + length rows\<rparr>) items
                                   (tr @ [UpsertItems rows])))
                  else complete_job e job v items tr))"

text \<open>One turn of the loop of line 162.\<close>

definition process_job ::
  "env \<Rightarrow> string \<Rightarrow> number \<Rightarrow> job \<Rightarrow> vars \<Rightarrow> event list \<Rightarrow> (thrown + vars) \<times> event list" where
  "process_job e site_id limit job v tr =
     (case fetch_listing e job (job_url site_id limit job) (v\<lparr>processed := Suc (processed v)\<rparr>)
             (tr @ [processing_update e job tr]) of
        (Inl err, tr2) \<Rightarrow> (Inl err, tr2)
      | (Inr (resMl, v2), tr2) \<Rightarrow> finish_job e site_id job v2 resMl tr2)"

text \<open>The loop: a thrown value leaves it at once.\<close>

fun process_jobs ::
  "env \<Rightarrow> string \<Rightarrow> number \<Rightarrow> job list \<Rightarrow> vars \<Rightarrow> event list \<Rightarrow> (thrown + vars) \<times> event list" where
  "process_jobs e site_id limit [] v tr = (Inr v, tr)"
| "process_jobs e site_id limit (job # jobs) v tr =
     (case process_job e site_id limit job v tr of
        (Inl err, tr1) \<Rightarrow> (Inl err, tr1)
      | (Inr v1, tr1) \<Rightarrow> process_jobs e site_id limit jobs v1 tr1)"

text \<open>\<^verbatim>\<open>err.message || String(err)\<close>.\<close>

definition catch_message :: "thrown \<Rightarrow> string" where
  "catch_message err = (if message err \<noteq> [] then message err else as_string err)"

text \<open>Lines 115, 117 and 118.\<close>

definition body_of :: "request \<Rightarrow> req_body" where
  "body_of req = (case q_body req of None \<Rightarrow> empty_body | Some b \<Rightarrow> b)"

definition batch_of :: "req_body \<Rightarrow> number" where
  "batch_of body = (case b_batch body of None \<Rightarrow> 5 | Some n \<Rightarrow> n)"

definition limit_of :: "req_body \<Rightarrow> number" where
  "limit_of body = (case b_limit body of None \<Rightarrow> 50 | Some n \<Rightarrow> n)"

definition initial_vars :: "string \<Rightarrow> string \<Rightarrow> vars" where
  "initial_vars at rt = \<lparr>accessToken = at, refreshTok = rt, results = [], processed = 0, inserted = 0\<rparr>"

text \<open>
  The exported handler: its reply and the calls it made. Line 116 stands before the
  \<^verbatim>\<open>try\<close>: a value thrown there is not caught, the handler's promise rejects with it
  (\<open>Inl\<close>) and nothing is answered.
\<close>

definition handler :: "env \<Rightarrow> request \<Rightarrow> (thrown + reply) \<times> event list" where
  "handler e req =
     (if q_method req \<noteq> ''POST'' then (Inr (405, Failure ''Method not allowed''), [])
      else
        (case resolve_site_id (body_of req) of
           Inl err \<Rightarrow> (Inl err, [])
         | Inr site_id \<Rightarrow>
        (let batch = batch_of (body_of req);
             limit = limit_of (body_of req)
         in (case select_jobs e [] site_id batch of
               Inl msg \<Rightarrow> (Inr (500, Failure msg), [SelectJobs site_id batch])
             | Inr None \<Rightarrow> (Inr (200, NoJobs site_id batch limit), [SelectJobs site_id batch])
             | Inr (Some jobs) \<Rightarrow>
                 (if length jobs = 0 then (Inr (200, NoJobs site_id batch limit), [SelectJobs site_id batch])
                  else (case resolve_tokens e req [SelectJobs site_id batch] of
                          (Inl err, tr1) \<Rightarrow> (Inr (500, Failure (catch_message err)), tr1)
                        | (Inr (token_source, at, rt), tr1) \<Rightarrow>
                            (case process_jobs e site_id limit jobs (initial_vars at rt) tr1 of
                               (Inl err, tr2) \<Rightarrow> (Inr (500, Failure (catch_message err)), tr2)
                             | (Inr v, tr2) \<Rightarrow>
                                 (Inr (200, Summary site_id (processed v) (inserted v) token_source
                                          (length (accessToken v)) (results v)), tr2))))))))"

section \<open>Reading the trace of calls\<close>

fun is_fetch :: "event \<Rightarrow> bool" where
  "is_fetch (Fetch rq) = True"
| "is_fetch _ = False"

text \<open>The POST to the OAuth endpoint, and a GET that carries a bearer header.\<close>

fun is_refresh :: "event \<Rightarrow> bool" where
  "is_refresh (Fetch rq) = (f_method rq = ''POST'' \<and> f_url rq = ''https://api.mercadolibre.com/oauth/token'')"
| "is_refresh _ = False"

fun is_private_fetch :: "event \<Rightarrow> bool" where
  "is_private_fetch (Fetch rq) = (f_method rq = ''GET'' \<and> map_of (f_headers rq) ''Authorization'' \<noteq> None)"
| "is_private_fetch _ = False"

fun is_token_write :: "event \<Rightarrow> bool" where
  "is_token_write (UpsertToken w) = True"
| "is_token_write (UpdateToken old w) = True"
| "is_token_write _ = False"

text \<open>The calls that change the database.\<close>

fun is_mutation :: "event \<Rightarrow> bool" where
  "is_mutation (UpdateJob i u) = True"
| "is_mutation (UpsertToken w) = True"
| "is_mutation (UpdateToken old w) = True"
| "is_mutation (UpsertItems rows) = True"
| "is_mutation _ = False"

text \<open>The calls made while one job is processed, and while the whole batch is.\<close>

definition job_calls :: "env \<Rightarrow> string \<Rightarrow> number \<Rightarrow> job \<Rightarrow> vars \<Rightarrow> event list \<Rightarrow> event list" where
  "job_calls e site_id limit job v tr = drop (length tr) (snd (process_job e site_id limit job v tr))"

definition batch_calls :: "env \<Rightarrow> string \<Rightarrow> number \<Rightarrow> job list \<Rightarrow> vars \<Rightarrow> event list \<Rightarrow> event list" where
  "batch_calls e site_id limit jobs v tr = drop (length tr) (snd (process_jobs e site_id limit jobs v tr))"

text \<open>The status each update of a job's row writes, in order.\<close>

fun job_status_writes :: "event list \<Rightarrow> (int \<times> string) list" where
  "job_status_writes [] = []"
| "job_status_writes (UpdateJob i u # evs) = (i, u_status u) # job_status_writes evs"
| "job_status_writes (ev # evs) = job_status_writes evs"

text \<open>Whether the public fetch of a job is answered 401.\<close>

definition public_401 :: "env \<Rightarrow> string \<Rightarrow> number \<Rightarrow> job \<Rightarrow> event list \<Rightarrow> bool" where
  "public_401 e site_id limit job tr =
     (case fetch e (tr @ [processing_update e job tr]) (public_request (job_url site_id limit job)) of
        Inl err \<Rightarrow> False
      | Inr r \<Rightarrow> r_status r = 401)"

text \<open>The token pair is refreshed at most once in a trace.\<close>

definition refreshed_at_most_once :: "event list \<Rightarrow> bool" where
  "refreshed_at_most_once tr = (length (filter is_refresh tr) \<le> 1)"

text \<open>
  The status writes of a batch that was left while one of its jobs was being processed:
  the jobs before it were set to processing and then to done or error, the job itself
  was only set to processing, the jobs after it were not written.
\<close>

fun aborted_writes :: "job list \<Rightarrow> (int \<times> string) list \<Rightarrow> bool" where
  "aborted_writes [] ws = False"
| "aborted_writes (job # jobs) [] = False"
| "aborted_writes (job # jobs) [w] = (w = (j_id job, ''processing''))"
| "aborted_writes (job # jobs) (w # w2 # ws) =
     (w = (j_id job, ''processing'') \<and> fst w2 = j_id job \<and> (snd w2 = ''done'' \<or> snd w2 = ''error'')
      \<and> aborted_writes jobs ws)"

text \<open>The last status written for a job, and: every job written to ends as done or error.\<close>

definition last_status :: "event list \<Rightarrow> int \<Rightarrow> string option" where
  "last_status tr i = map_of (rev (job_status_writes tr)) i"

definition touched_jobs_finalized :: "event list \<Rightarrow> bool" where
  "touched_jobs_finalized tr =
     list_all (\<lambda>w. last_status tr (fst w) = Some ''done'' \<or> last_status tr (fst w) = Some ''error'')
       (job_status_writes tr)"

text \<open>The latest stored credential is missing or lacks one of its two tokens.\<close>

fun no_usable_token :: "thrown + token_row option \<Rightarrow> bool" where
  "no_usable_token (Inl err) = False"
| "no_usable_token (Inr None) = True"
| "no_usable_token (Inr (Some row)) = (missing (t_access_token row) \<or> missing (t_refresh_token row))"

section \<open>The specification's wording of item extraction and normalization\<close>

text \<open>A list that is not empty, and a field that is neither absent nor null.\<close>

fun nonempty_list :: "json option \<Rightarrow> json list option" where
  "nonempty_list (Some (JArr (x # xs))) = Some (x # xs)"
| "nonempty_list _ = None"

fun present :: "json option \<Rightarrow> json option" where
  "present None = None"
| "present (Some JNull) = None"
| "present (Some v) = Some v"

text \<open>
  The "results" field when it is a non-empty list, else the payload when it is a non-empty
  list, else nothing.
\<close>

definition described_items :: "json \<Rightarrow> json list" where
  "described_items payload =
     (case nonempty_list (opt_member payload ''results'') of
        Some xs \<Rightarrow> xs
      | None \<Rightarrow> (case nonempty_list (Some payload) of Some ys \<Rightarrow> ys | None \<Rightarrow> []))"

text \<open>A like-named field, null when there is none.\<close>

definition field_or_null :: "(string \<times> json) list \<Rightarrow> string \<Rightarrow> json" where
  "field_or_null kvs k = (case present (map_of kvs k) of None \<Rightarrow> JNull | Some v \<Rightarrow> v)"

text \<open>The id of the nested seller object when present, else the flat seller_id field, else null.\<close>

definition described_seller_id :: "(string \<times> json) list \<Rightarrow> json" where
  "described_seller_id kvs =
     (case (case map_of kvs ''seller'' of Some (JObj skvs) \<Rightarrow> present (map_of skvs ''id'') | _ \<Rightarrow> None) of
        Some v \<Rightarrow> v
      | None \<Rightarrow> field_or_null kvs ''seller_id'')"

section \<open>Scenarios\<close>

text \<open>
  An environment with fixed answers: the pending jobs, the latest stored credential, and
  the responses to the public fetch, to the refresh and to the private fetch.
\<close>

definition scenario ::
  "job list \<Rightarrow> token_row option \<Rightarrow> fetch_response \<Rightarrow> (string \<Rightarrow> fetch_response) \<Rightarrow> fetch_response \<Rightarrow> env" where
  "scenario jobs tok pub refresh priv =
     \<lparr>ML_CLIENT_ID = ''app'', ML_CLIENT_SECRET = ''secret'',
      select_jobs = (\<lambda>tr s b. Inr (Some jobs)),
      select_latest_token = (\<lambda>tr. Inr tok),
      fetch = (\<lambda>tr rq. if f_method rq = ''POST''
                         then Inr (refresh (case map_of (f_body rq) ''refresh_token'' of None \<Rightarrow> [] | Some t \<Rightarrow> t))
                         else if map_of (f_headers rq) ''Authorization'' = None then Inr pub
                         else Inr priv),
      token_write_error = (\<lambda>tr ev. None),
      upsert_items_error = (\<lambda>tr rows. None),
      now_iso = (\<lambda>tr. ''2024-05-01T12:00:00.000Z''),
      expires_at_iso = (\<lambda>tr x. Inr ''2024-05-01T18:00:00.000Z'')\<rparr>"

definition stored_token :: token_row where
  "stored_token =
     \<lparr>t_user_id = Some ''42'', t_access_token = Some ''AT1'', t_refresh_token = Some ''RT1'',
      t_token_type = Some ''Bearer'', t_scope = None, t_expires_at = None,
      t_updated_at = None, t_created_at = None\<rparr>"

text \<open>A response whose body is the compact JSON text of a value, and one whose body is not JSON.\<close>

definition response :: "nat \<Rightarrow> json \<Rightarrow> fetch_response" where
  "response st v = \<lparr>r_status = st, r_text = stringify v, r_json = Some v\<rparr>"

definition plain_response :: "nat \<Rightarrow> string \<Rightarrow> fetch_response" where
  "plain_response st body = \<lparr>r_status = st, r_text = body, r_json = None\<rparr>"

text \<open>A refresh that rotates the pair: RT1 gives (AT2, RT2), any other token gives (AT3, RT3).\<close>

definition rotate :: "string \<Rightarrow> fetch_response" where
  "rotate t =
     (if t = ''RT1''
      then response 200 (JObj [(''access_token'', JStr ''AT2''), (''refresh_token'', JStr ''RT2''), (''user_id'', JNum 42)])
      else response 200 (JObj [(''access_token'', JStr ''AT3''), (''refresh_token'', JStr ''RT3''), (''user_id'', JNum 42)]))"

definition denied :: "string \<Rightarrow> fetch_response" where
  "denied t = response 400 (JObj [(''error'', JStr ''invalid_grant'')])"

definition unauthorized :: fetch_response where
  "unauthorized = response 401 (JObj [(''message'', JStr ''unauthorized'')])"

definition post_request :: request where
  "post_request = \<lparr>q_method = ''POST'', q_headers = (\<lambda>h. None), q_body = None\<rparr>"

definition bearer_request :: request where
  "bearer_request =
     \<lparr>q_method = ''POST'',
      q_headers = (\<lambda>h. if h = ''authorization'' then Some ''Bearer CALLER'' else None),
      q_body = Some \<lparr>b_site_id = None, b_country = Some (JStr ''AR''), b_batch = Some 2, b_limit = Some 10\<rparr>\<rparr>"

definition job7 :: job where
  "job7 = \<lparr>j_id = 7, j_site_id = ''MLC'', j_category_id = ''MLC1234'', j_status = ''pending'', j_attempts = Some 0\<rparr>"

definition job9 :: job where
  "job9 = \<lparr>j_id = 9, j_site_id = ''MLC'', j_category_id = ''SELLER:555'', j_status = ''pending'', j_attempts = None\<rparr>"

definition job10 :: job where
  "job10 = \<lparr>j_id = 10, j_site_id = ''MLC'', j_category_id = ''SELLER:777'', j_status = ''pending'', j_attempts = Some 2\<rparr>"

definition listing :: json where
  "listing = JObj [(''results'', JArr [JObj [(''id'', JStr ''MLC111''), (''title'', JStr ''X''),
                                           (''price'', JNum 10), (''currency_id'', JStr ''CLP'')]])]"

definition vars0 :: vars where
  "vars0 = initial_vars ''AT1'' ''RT1''"

text \<open>The last_error each update of a job's row writes, and: a text occurs in another.\<close>

fun last_errors :: "event list \<Rightarrow> (int \<times> string option) list" where
  "last_errors [] = []"
| "last_errors (UpdateJob i u # evs) = (i, u_last_error u) # last_errors evs"
| "last_errors (ev # evs) = last_errors evs"

fun contains :: "string \<Rightarrow> string \<Rightarrow> bool" where
  "contains [] p = (p = [])"
| "contains (c # cs) p = (startsWith (c # cs) p \<or> contains cs p)"

text \<open>The rows handed to the upserts of a trace.\<close>

fun upserted_rows :: "event list \<Rightarrow> item_row list" where
  "upserted_rows [] = []"
| "upserted_rows (UpsertItems rows # evs) = rows @ upserted_rows evs"
| "upserted_rows (ev # evs) = upserted_rows evs"

text \<open>
  A category job answered with one listing; a seller job answered 401, then refreshed, then
  answered with a bare identifier; the same with the retry answered 401 again; two seller
  jobs; a category and two seller jobs whose refresh is denied; two jobs answered 500; a
  job without any stored credential; no job at all.
\<close>

definition category_scenario :: env where
  "category_scenario = scenario [job7] (Some stored_token) (response 200 listing) rotate unauthorized"

definition seller_scenario :: env where
  "seller_scenario =
     scenario [job9] (Some stored_token) unauthorized rotate (response 200 (JArr [JStr ''MLC999'']))"

definition locked_out_scenario :: env where
  "locked_out_scenario = scenario [job9] (Some stored_token) unauthorized rotate unauthorized"

definition two_sellers_scenario :: env where
  "two_sellers_scenario =
     scenario [job9, job10] (Some stored_token) unauthorized rotate (response 200 (JArr [JStr ''MLC999'']))"

definition refresh_denied_scenario :: env where
  "refresh_denied_scenario =
     scenario [job7, job9, job10] (Some stored_token) unauthorized denied unauthorized"

definition outage_scenario :: env where
  "outage_scenario =
     scenario [job7, job9] (Some stored_token) (response 500 (JStr ''boom'')) rotate unauthorized"

definition no_credential_scenario :: env where
  "no_credential_scenario = scenario [job7] None (response 200 listing) rotate unauthorized"

definition idle_scenario :: env where
  "idle_scenario = scenario [] (Some stored_token) (response 200 listing) rotate unauthorized"

text \<open>
  A category job answered 500 with a body that is not JSON; a seller job whose retry is
  answered 500; a category job whose listing holds a null item.
\<close>

definition plain_outage_scenario :: env where
  "plain_outage_scenario =
     scenario [job7, job9] (Some stored_token) (plain_response 500 ''Internal Server Error'') rotate unauthorized"

definition retry_outage_scenario :: env where
  "retry_outage_scenario =
     scenario [job9, job7] (Some stored_token) unauthorized rotate (response 500 (JObj [(''error'', JStr ''boom'')]))"

definition null_item_scenario :: env where
  "null_item_scenario =
     scenario [job7] (Some stored_token) (response 200 (JObj [(''results'', JArr [JNull])])) rotate unauthorized"

section \<open>The calls of a job and of a batch\<close>

text \<open>
  Kinds of the requests the worker builds, and of the updates of a job's row.
\<close>

lemma refresh_request_kind [simp]:
  "is_refresh (Fetch (refresh_request e rt))" "\<not> is_private_fetch (Fetch (refresh_request e rt))"
  by (simp_all add: refresh_request_def)

lemma public_request_kind [simp]:
  "\<not> is_refresh (Fetch (public_request url))" "\<not> is_private_fetch (Fetch (public_request url))"
  by (simp_all add: public_request_def)

lemma private_request_kind [simp]:
  "\<not> is_refresh (Fetch (private_request url t))" "is_private_fetch (Fetch (private_request url t))"
  by (simp_all add: private_request_def)

lemma job_update_kind [simp]:
  "\<not> is_fetch (processing_update e job tr)" "\<not> is_fetch (error_update e job m tr)" "\<not> is_fetch (done_update e job tr)"
  "\<not> is_token_write (processing_update e job tr)" "\<not> is_token_write (error_update e job m tr)"
  "\<not> is_token_write (done_update e job tr)"
  "\<not> is_refresh (processing_update e job tr)" "\<not> is_private_fetch (processing_update e job tr)"
  by (simp_all add: processing_update_def error_update_def done_update_def)

text \<open>
  What a refresh, the fetch of a listing and the handling of a response add to the trace.
\<close>

lemma refreshToken_trace:
  "\<exists>ws. snd (refreshToken e rt tr) = tr @ Fetch (refresh_request e rt) # ws \<and> list_all is_token_write ws"
  by (auto simp: refreshToken_def store_refreshed_def Let_def split: sum.splits option.splits)

lemma finish_job_trace:
  "\<exists>ws. snd (finish_job e site_id job v r tr) = tr @ ws \<and> list_all (\<lambda>ev. \<not> is_fetch ev \<and> \<not> is_token_write ev) ws"
  by (auto simp: finish_job_def complete_job_def Let_def split: sum.splits option.splits)

lemma finish_job_tokens:
  "finish_job e site_id job v r tr = (Inr v', tr') \<Longrightarrow>
   accessToken v' = accessToken v \<and> refreshTok v' = refreshTok v \<and> processed v' = processed v"
  by (auto simp: finish_job_def complete_job_def Let_def split: sum.splits option.splits if_splits)

lemma no_fetch_no_auth:
  "list_all (\<lambda>ev. \<not> is_fetch ev \<and> \<not> is_token_write ev) ws \<Longrightarrow>
   filter is_fetch ws = [] \<and> filter is_refresh ws = [] \<and> filter is_private_fetch ws = []
   \<and> list_all (\<lambda>ev. \<not> is_private_fetch ev \<and> \<not> is_refresh ev \<and> \<not> is_token_write ev) ws"
proof (induction ws)
  case Nil
  then show ?case by simp
next
  case (Cons ev ws)
  then show ?case by (cases ev) auto
qed

lemma token_writes_are_quiet:
  "list_all is_token_write ws \<Longrightarrow>
   filter is_fetch ws = [] \<and> filter is_refresh ws = [] \<and> filter is_private_fetch ws = []"
proof (induction ws)
  case Nil
  then show ?case by simp
next
  case (Cons ev ws)
  then show ?case by (cases ev) auto
qed

lemma token_writes_weaken:
  "list_all is_token_write ws \<Longrightarrow> list_all (\<lambda>ev. is_fetch ev \<or> is_token_write ev) ws"
  by (induction ws) simp_all

lemma digits_401: "digits 401 = ''401''"
  by (simp add: digits.simps digit_char_def)

lemma fetch_listing_category:
  "\<not> isSeller job \<Longrightarrow>
   fetch_listing e job url v tr =
     (case fetch e tr (public_request url) of
        Inl err \<Rightarrow> (Inl err, tr @ [Fetch (public_request url)])
      | Inr r \<Rightarrow> (Inr (r, v), tr @ [Fetch (public_request url)]))"
  by (simp add: fetch_listing_def mlGetPublic_def split: sum.splits)

lemma fetch_listing_seller_401:
  assumes "isSeller job" and "fetch e tr (public_request url) = Inr r1" and "r_status r1 = 401"
  shows "fetch_listing e job url v tr =
     (case refreshToken e (refreshTok v) (tr @ [Fetch (public_request url)]) of
        (Inl err, tr2) \<Rightarrow> (Inl err, tr2)
      | (Inr rf, tr2) \<Rightarrow>
          (case fetch e tr2 (private_request url (rf_access_token rf)) of
             Inl err \<Rightarrow> (Inl err, tr2 @ [Fetch (private_request url (rf_access_token rf))])
           | Inr r2 \<Rightarrow>
               (Inr (r2, v\<lparr>accessToken := rf_access_token rf, refreshTok := rf_refresh_token rf\<rparr>),
                tr2 @ [Fetch (private_request url (rf_access_token rf))])))"
  using assms
  by (simp add: fetch_listing_def mlGetPublic_def mlGetPrivate_def split: sum.splits prod.splits)

lemma job_status_writes_append:
  "job_status_writes (xs @ ys) = job_status_writes xs @ job_status_writes ys"
  by (induction xs rule: job_status_writes.induct) simp_all

lemma no_status_writes:
  "list_all (\<lambda>ev. is_fetch ev \<or> is_token_write ev) ws \<Longrightarrow> job_status_writes ws = []"
  by (induction ws rule: job_status_writes.induct) simp_all

lemma fetch_listing_trace:
  "\<exists>ws. snd (fetch_listing e job url v tr) = tr @ Fetch (public_request url) # ws
      \<and> list_all (\<lambda>ev. is_fetch ev \<or> is_token_write ev) ws
      \<and> filter is_refresh ws
          = (if isSeller job \<and> (case fetch e tr (public_request url) of Inl err \<Rightarrow> False | Inr r \<Rightarrow> r_status r = 401)
             then [Fetch (refresh_request e (refreshTok v))] else [])"
proof (cases "fetch e tr (public_request url)")
  case (Inl err)
  then show ?thesis
    by (simp add: fetch_listing_def mlGetPublic_def)
next
  case (Inr r1)
  show ?thesis
  proof (cases "isSeller job \<and> r_status r1 = 401")
    case False
    then show ?thesis
      using Inr by (auto simp: fetch_listing_def mlGetPublic_def)
  next
    case True
    let ?trp = "tr @ [Fetch (public_request url)]"
    obtain tw where tr_rf: "snd (refreshToken e (refreshTok v) ?trp)
          = ?trp @ Fetch (refresh_request e (refreshTok v)) # tw"
      and tw: "list_all is_token_write tw"
      using refreshToken_trace by blast
    note quiet = token_writes_are_quiet [OF tw] token_writes_weaken [OF tw]
    obtain res tr2 where rt: "refreshToken e (refreshTok v) ?trp = (res, tr2)"
      by (cases "refreshToken e (refreshTok v) ?trp")
    have tr2: "tr2 = ?trp @ Fetch (refresh_request e (refreshTok v)) # tw"
      using tr_rf rt by simp
    have fl: "fetch_listing e job url v tr =
       (case res of
          Inl err \<Rightarrow> (Inl err, tr2)
        | Inr rf \<Rightarrow>
            (case fetch e tr2 (private_request url (rf_access_token rf)) of
               Inl err \<Rightarrow> (Inl err, tr2 @ [Fetch (private_request url (rf_access_token rf))])
             | Inr r2 \<Rightarrow>
                 (Inr (r2, v\<lparr>accessToken := rf_access_token rf, refreshTok := rf_refresh_token rf\<rparr>),
                  tr2 @ [Fetch (private_request url (rf_access_token rf))])))"
      using True Inr fetch_listing_seller_401 [of job e tr url r1 v] by (simp add: rt)
    show ?thesis
    proof (cases res)
      case (Inl err)
      then show ?thesis
        using True Inr quiet
        by (simp add: fl tr2 del: is_refresh.simps)
    next
      case rf: (Inr rf)
      have "snd (fetch_listing e job url v tr) = tr2 @ [Fetch (private_request url (rf_access_token rf))]"
        by (simp add: fl rf split: sum.splits)
      then show ?thesis
        using True Inr quiet
        by (simp add: tr2 del: is_refresh.simps)
    qed
  qed
qed

lemma finish_job_writes:
  "\<exists>ws. snd (finish_job e site_id job v r tr) = tr @ ws
      \<and> list_all (\<lambda>ev. \<not> is_fetch ev \<and> \<not> is_token_write ev) ws
      \<and> (case fst (finish_job e site_id job v r tr) of
            Inl err \<Rightarrow> job_status_writes ws = []
          | Inr v' \<Rightarrow> job_status_writes ws = [(j_id job, ''done'')]
                     \<or> job_status_writes ws = [(j_id job, ''error'')])"
  by (auto simp: finish_job_def complete_job_def Let_def done_update_def error_update_def
           split: sum.splits option.splits)

lemma status_writes_processing:
  "job_status_writes (processing_update e job tr # evs) = (j_id job, ''processing'') # job_status_writes evs"
  by (simp add: processing_update_def)

text \<open>
  One job: the trace only grows, a refresh is requested exactly for a seller job answered 401,
  and the job's row is set to processing and then, unless a value was thrown, to done or error.
\<close>

lemma process_job_calls:
  "\<exists>ws. snd (process_job e site_id limit job v tr) = tr @ ws
      \<and> filter is_refresh ws
          = (if isSeller job \<and> public_401 e site_id limit job tr
             then [Fetch (refresh_request e (refreshTok v))] else [])
      \<and> (case fst (process_job e site_id limit job v tr) of
            Inl err \<Rightarrow> job_status_writes ws = [(j_id job, ''processing'')]
          | Inr v' \<Rightarrow> job_status_writes ws = [(j_id job, ''processing''), (j_id job, ''done'')]
                     \<or> job_status_writes ws = [(j_id job, ''processing''), (j_id job, ''error'')])"
proof -
  let ?url = "job_url site_id limit job"
  let ?tr1 = "tr @ [processing_update e job tr]"
  let ?v1 = "v\<lparr>processed := Suc (processed v)\<rparr>"
  obtain lw where lw: "snd (fetch_listing e job ?url ?v1 ?tr1) = ?tr1 @ Fetch (public_request ?url) # lw"
    and kinds: "list_all (\<lambda>ev. is_fetch ev \<or> is_token_write ev) lw"
    and count: "filter is_refresh lw
        = (if isSeller job \<and> public_401 e site_id limit job tr
           then [Fetch (refresh_request e (refreshTok v))] else [])"
    using fetch_listing_trace [of e job ?url ?v1 ?tr1] unfolding public_401_def by auto
  note silent = no_status_writes [OF kinds]
  obtain res tr2 where fl: "fetch_listing e job ?url ?v1 ?tr1 = (res, tr2)"
    by (cases "fetch_listing e job ?url ?v1 ?tr1")
  have tr2: "tr2 = ?tr1 @ Fetch (public_request ?url) # lw"
    using lw fl by simp
  show ?thesis
  proof (cases res)
    case (Inl err)
    have pj: "process_job e site_id limit job v tr = (Inl err, tr2)"
      by (simp add: process_job_def fl Inl)
    show ?thesis
      using count silent
      by (simp add: pj tr2 status_writes_processing job_status_writes_append del: is_refresh.simps)
  next
    case (Inr p)
    obtain r v2 where p: "p = (r, v2)" by (cases p)
    have pj: "process_job e site_id limit job v tr = finish_job e site_id job v2 r tr2"
      by (simp add: process_job_def fl Inr p)
    obtain fw where fw: "snd (finish_job e site_id job v2 r tr2) = tr2 @ fw"
      and q: "list_all (\<lambda>ev. \<not> is_fetch ev \<and> \<not> is_token_write ev) fw"
      and st: "case fst (finish_job e site_id job v2 r tr2) of
                 Inl err \<Rightarrow> job_status_writes fw = []
               | Inr v' \<Rightarrow> job_status_writes fw = [(j_id job, ''done'')]
                          \<or> job_status_writes fw = [(j_id job, ''error'')]"
      using finish_job_writes by blast
    have ext: "snd (process_job e site_id limit job v tr)
        = tr @ (processing_update e job tr # Fetch (public_request ?url) # lw @ fw)"
      using fw by (simp add: pj tr2)
    have cnt: "filter is_refresh (processing_update e job tr # Fetch (public_request ?url) # lw @ fw)
        = (if isSeller job \<and> public_401 e site_id limit job tr
           then [Fetch (refresh_request e (refreshTok v))] else [])"
      using count no_fetch_no_auth [OF q] by (simp del: is_refresh.simps)
    have wr: "job_status_writes (processing_update e job tr # Fetch (public_request ?url) # lw @ fw)
        = (j_id job, ''processing'') # job_status_writes fw"
      using silent by (simp add: status_writes_processing job_status_writes_append)
    show ?thesis
      using ext cnt wr st by (auto simp: pj split: sum.splits)
  qed
qed

lemma process_job_extends:
  "snd (process_job e site_id limit job v tr) = tr @ job_calls e site_id limit job v tr"
  using process_job_calls [of e site_id limit job v tr] by (auto simp: job_calls_def)

lemma job_refreshes:
  "filter is_refresh (job_calls e site_id limit job v tr)
     = (if isSeller job \<and> public_401 e site_id limit job tr
        then [Fetch (refresh_request e (refreshTok v))] else [])"
  using process_job_calls [of e site_id limit job v tr] by (auto simp: job_calls_def)

lemma job_writes:
  "case fst (process_job e site_id limit job v tr) of
     Inl err \<Rightarrow> job_status_writes (job_calls e site_id limit job v tr) = [(j_id job, ''processing'')]
   | Inr v' \<Rightarrow> job_status_writes (job_calls e site_id limit job v tr) = [(j_id job, ''processing''), (j_id job, ''done'')]
              \<or> job_status_writes (job_calls e site_id limit job v tr) = [(j_id job, ''processing''), (j_id job, ''error'')]"
proof -
  obtain ws where ext: "snd (process_job e site_id limit job v tr) = tr @ ws"
    and wr: "case fst (process_job e site_id limit job v tr) of
            Inl err \<Rightarrow> job_status_writes ws = [(j_id job, ''processing'')]
          | Inr v' \<Rightarrow> job_status_writes ws = [(j_id job, ''processing''), (j_id job, ''done'')]
                     \<or> job_status_writes ws = [(j_id job, ''processing''), (j_id job, ''error'')]"
    using process_job_calls [of e site_id limit job v tr] by blast
  have "job_calls e site_id limit job v tr = ws"
    by (simp add: job_calls_def ext)
  then show ?thesis using wr by (simp split: sum.splits)
qed

lemma job_keeps_tokens:
  assumes "\<not> (isSeller job \<and> public_401 e site_id limit job tr)"
    and "process_job e site_id limit job v tr = (Inr v', tr')"
  shows "accessToken v' = accessToken v \<and> refreshTok v' = refreshTok v"
proof -
  let ?url = "job_url site_id limit job"
  let ?tr1 = "tr @ [processing_update e job tr]"
  let ?v1 = "v\<lparr>processed := Suc (processed v)\<rparr>"
  have fl: "fetch_listing e job ?url ?v1 ?tr1 =
     (case fetch e ?tr1 (public_request ?url) of
        Inl err \<Rightarrow> (Inl err, ?tr1 @ [Fetch (public_request ?url)])
      | Inr r \<Rightarrow> (Inr (r, ?v1), ?tr1 @ [Fetch (public_request ?url)]))"
    using assms(1)
    by (auto simp: fetch_listing_def mlGetPublic_def public_401_def split: sum.splits)
  show ?thesis
  proof (cases "fetch e ?tr1 (public_request ?url)")
    case (Inl err)
    then show ?thesis
      using assms(2) by (simp add: process_job_def fl)
  next
    case (Inr r)
    then have "finish_job e site_id job ?v1 r (?tr1 @ [Fetch (public_request ?url)]) = (Inr v', tr')"
      using assms(2) by (simp add: process_job_def fl)
    from finish_job_tokens [OF this] show ?thesis
      by simp
  qed
qed

lemma job_takes_refreshed_tokens:
  assumes "isSeller job" and "public_401 e site_id limit job tr"
    and "refreshToken e (refreshTok v)
           (tr @ [processing_update e job tr, Fetch (public_request (job_url site_id limit job))]) = (Inr rf, tr2)"
    and "process_job e site_id limit job v tr = (Inr v', tr')"
  shows "accessToken v' = rf_access_token rf \<and> refreshTok v' = rf_refresh_token rf"
proof -
  let ?url = "job_url site_id limit job"
  let ?tr1 = "tr @ [processing_update e job tr]"
  let ?v1 = "v\<lparr>processed := Suc (processed v)\<rparr>"
  let ?v2 = "?v1\<lparr>accessToken := rf_access_token rf, refreshTok := rf_refresh_token rf\<rparr>"
  obtain r1 where first: "fetch e ?tr1 (public_request ?url) = Inr r1" and unauth: "r_status r1 = 401"
    using assms(2) by (auto simp: public_401_def split: sum.splits)
  have fl: "fetch_listing e job ?url ?v1 ?tr1 =
     (case fetch e tr2 (private_request ?url (rf_access_token rf)) of
        Inl err \<Rightarrow> (Inl err, tr2 @ [Fetch (private_request ?url (rf_access_token rf))])
      | Inr r2 \<Rightarrow> (Inr (r2, ?v2), tr2 @ [Fetch (private_request ?url (rf_access_token rf))]))"
    using fetch_listing_seller_401 [OF assms(1) first unauth, of ?v1] assms(3) by simp
  show ?thesis
  proof (cases "fetch e tr2 (private_request ?url (rf_access_token rf))")
    case (Inl err)
    then show ?thesis
      using assms(4) by (simp add: process_job_def fl)
  next
    case (Inr r2)
    then have "finish_job e site_id job ?v2 r2 (tr2 @ [Fetch (private_request ?url (rf_access_token rf))])
        = (Inr v', tr')"
      using assms(4) by (simp add: process_job_def fl)
    from finish_job_tokens [OF this] show ?thesis
      by simp
  qed
qed

text \<open>
  The batch: its calls are those of its jobs, one after the other, up to the first throw.
\<close>

lemma process_jobs_extends:
  "snd (process_jobs e site_id limit jobs v tr) = tr @ batch_calls e site_id limit jobs v tr"
proof (induction jobs arbitrary: v tr)
  case Nil
  then show ?case by (simp add: batch_calls_def)
next
  case (Cons job jobs)
  obtain res tr1 where pj: "process_job e site_id limit job v tr = (res, tr1)"
    by (cases "process_job e site_id limit job v tr")
  have tr1: "tr1 = tr @ job_calls e site_id limit job v tr"
    using process_job_extends [of e site_id limit job v tr] pj by simp
  show ?case
  proof (cases res)
    case (Inl err)
    then show ?thesis by (simp add: batch_calls_def pj tr1)
  next
    case (Inr v1)
    have "snd (process_jobs e site_id limit (job # jobs) v tr)
        = tr1 @ batch_calls e site_id limit jobs v1 tr1"
      using Cons.IH [of v1 tr1] by (simp add: pj Inr)
    then show ?thesis by (simp add: batch_calls_def tr1)
  qed
qed

lemma batch_calls_Cons:
  "batch_calls e site_id limit (job # jobs) v tr =
     job_calls e site_id limit job v tr @
     (case fst (process_job e site_id limit job v tr) of
        Inl err \<Rightarrow> []
      | Inr v1 \<Rightarrow> batch_calls e site_id limit jobs v1 (snd (process_job e site_id limit job v tr)))"
proof -
  obtain res tr1 where pj: "process_job e site_id limit job v tr = (res, tr1)"
    by (cases "process_job e site_id limit job v tr")
  have tr1: "tr1 = tr @ job_calls e site_id limit job v tr"
    using process_job_extends [of e site_id limit job v tr] pj by simp
  show ?thesis
  proof (cases res)
    case (Inl err)
    then show ?thesis by (simp add: batch_calls_def pj tr1)
  next
    case (Inr v1)
    have "snd (process_jobs e site_id limit (job # jobs) v tr)
        = tr1 @ batch_calls e site_id limit jobs v1 tr1"
      using process_jobs_extends [of e site_id limit jobs v1 tr1] by (simp add: pj Inr)
    then have "batch_calls e site_id limit (job # jobs) v tr
        = job_calls e site_id limit job v tr @ batch_calls e site_id limit jobs v1 tr1"
      unfolding batch_calls_def [of e site_id limit "job # jobs"] by (simp add: tr1)
    then show ?thesis by (simp add: pj Inr)
  qed
qed

lemma batch_refresh_bound:
  "length (filter is_refresh (batch_calls e site_id limit jobs v tr)) \<le> length (filter isSeller jobs)"
proof (induction jobs arbitrary: v tr)
  case Nil
  then show ?case by (simp add: batch_calls_def)
next
  case (Cons job jobs)
  have one: "length (filter is_refresh (job_calls e site_id limit job v tr)) \<le> (if isSeller job then 1 else 0)"
    by (simp add: job_refreshes)
  show ?case
  proof (cases "fst (process_job e site_id limit job v tr)")
    case (Inl err)
    then show ?thesis using one by (auto simp: batch_calls_Cons split: if_splits)
  next
    case (Inr v1)
    then show ?thesis
      using one Cons.IH [of v1 "snd (process_job e site_id limit job v tr)"]
      by (auto simp: batch_calls_Cons split: if_splits)
  qed
qed

lemma aborted_batch_writes:
  "fst (process_jobs e site_id limit jobs v tr) = Inl err \<Longrightarrow>
   aborted_writes jobs (job_status_writes (batch_calls e site_id limit jobs v tr))"
proof (induction jobs arbitrary: v tr)
  case Nil
  then show ?case by simp
next
  case (Cons job jobs)
  obtain res tr1 where pj: "process_job e site_id limit job v tr = (res, tr1)"
    by (cases "process_job e site_id limit job v tr")
  show ?case
  proof (cases res)
    case (Inl err')
    then show ?thesis
      using job_writes [of e site_id limit job v tr]
      by (simp add: batch_calls_Cons pj)
  next
    case (Inr v1)
    have "fst (process_jobs e site_id limit jobs v1 tr1) = Inl err"
      using Cons.prems by (simp add: pj Inr)
    from Cons.IH [OF this] show ?thesis
      using job_writes [of e site_id limit job v tr]
      by (auto simp: batch_calls_Cons pj Inr job_status_writes_append)
  qed
qed

text \<open>
  The handler: the credential lookup is one call, and the first call is the query for jobs.
\<close>

lemma resolve_tokens_trace:
  "snd (resolve_tokens e req tr) = tr @ [SelectLatestToken]"
  by (simp add: resolve_tokens_def getLatestToken_def split: sum.splits option.splits)

lemma handler_first_call:
  assumes "q_method req = ''POST''" and "resolve_site_id (body_of req) = Inr site_id"
  shows "take 1 (snd (handler e req)) = [SelectJobs site_id (batch_of (body_of req))]"
proof -
  let ?sel = "SelectJobs site_id (batch_of (body_of req))"
  obtain res tr1 where rt: "resolve_tokens e req [?sel] = (res, tr1)"
    by (cases "resolve_tokens e req [?sel]")
  have tr1: "tr1 = [?sel, SelectLatestToken]"
    using resolve_tokens_trace [of e req "[?sel]"] rt by simp
  have loop: "take 1 tr2 = [?sel]"
    if "process_jobs e s l jobs v [?sel, SelectLatestToken] = (r, tr2)" for s l jobs v r tr2
    using process_jobs_extends [of e s l jobs v "[?sel, SelectLatestToken]"] that by simp
  show ?thesis
    using assms rt
    by (auto simp: handler_def Let_def tr1 split: sum.splits option.splits prod.splits dest: loop)
qed

text \<open>A value thrown at line 116 leaves the handler before any call is made.\<close>

lemma uncaught_makes_no_call:
  assumes "q_method req = ''POST''" and "resolve_site_id (body_of req) = Inl err"
  shows "handler e req = (Inl err, [])"
  using assms by (simp add: handler_def)

text \<open>
  The model of extraction and normalization against the specification's wording.
\<close>

lemma nonempty_list_eq:
  "nonempty_list x = (if isArray x \<and> length (elements x) > 0 then Some (elements x) else None)"
  by (cases x rule: nonempty_list.cases) simp_all

lemma nullish_field:
  "nullish (map_of kvs k) JNull = field_or_null kvs k"
  by (cases "(map_of kvs k, JNull)" rule: nullish.cases) (simp_all add: field_or_null_def)

lemma nullish_present:
  "nullish x d = (case present x of None \<Rightarrow> d | Some v \<Rightarrow> v)"
  by (cases "(x, d)" rule: nullish.cases) simp_all

lemma seller_of_object:
  "seller_of (JObj kvs) = (case map_of kvs ''seller'' of Some (JObj skvs) \<Rightarrow> map_of skvs ''id'' | _ \<Rightarrow> None)"
  by (simp add: seller_of_def split: option.splits json.splits)

lemma seller_id_described:
  "nullish (seller_of (JObj kvs)) (field_or_null kvs ''seller_id'') = described_seller_id kvs"
  by (simp add: nullish_present seller_of_object described_seller_id_def
           split: option.splits json.splits)

text \<open>
  An item that is null is neither an identifier nor an object: reading its id throws, and
  the thrown value leaves the handler through its catch.
\<close>

lemma null_item_throws:
  "item_row_of job site_id JNull = Inl (null_read_error ''id'')"
  by (simp add: item_row_of_def)

text \<open>The calls of a seller job whose public fetch is answered 401.\<close>

lemma seller_401_shape:
  assumes seller: "isSeller job"
    and first: "fetch e (tr @ [processing_update e job tr]) (public_request (job_url site_id limit job)) = Inr r1"
    and unauth: "r_status r1 = 401"
  shows "length (filter is_refresh (job_calls e site_id limit job v tr)) = 1
     \<and> length (filter is_private_fetch (job_calls e site_id limit job v tr)) \<le> 1
     \<and> (\<forall>err tr2.
           refreshToken e (refreshTok v)
             (tr @ [processing_update e job tr, Fetch (public_request (job_url site_id limit job))]) = (Inl err, tr2)
           \<longrightarrow> filter is_private_fetch (job_calls e site_id limit job v tr) = []
               \<and> process_job e site_id limit job v tr = (Inl err, tr2))
     \<and> (\<forall>rf tr2.
           refreshToken e (refreshTok v)
             (tr @ [processing_update e job tr, Fetch (public_request (job_url site_id limit job))]) = (Inr rf, tr2)
           \<longrightarrow>
             filter is_fetch (job_calls e site_id limit job v tr)
               = [Fetch (public_request (job_url site_id limit job)),
                  Fetch (refresh_request e (refreshTok v)),
                  Fetch (private_request (job_url site_id limit job) (rf_access_token rf))]
           \<and> (\<forall>r2. fetch e tr2 (private_request (job_url site_id limit job) (rf_access_token rf)) = Inr r2
                    \<and> r_status r2 = 401
                 \<longrightarrow> process_job e site_id limit job v tr =
                       (Inr (v\<lparr>processed := Suc (processed v),
                               accessToken := rf_access_token rf,
                               refreshTok := rf_refresh_token rf,
                               results := results v @
                                 [JobFailed (j_id job) (j_category_id job) 401 (json_or_empty r2)]\<rparr>),
                        tr2 @ [Fetch (private_request (job_url site_id limit job) (rf_access_token rf)),
                               error_update e job (''ML 401 '' @ stringify (json_or_empty r2))
                                 (tr2 @ [Fetch (private_request (job_url site_id limit job) (rf_access_token rf))])])))"
proof -
  let ?url = "job_url site_id limit job"
  let ?tr1 = "tr @ [processing_update e job tr]"
  let ?trp = "tr @ [processing_update e job tr, Fetch (public_request ?url)]"
  let ?v1 = "v\<lparr>processed := Suc (processed v)\<rparr>"
  obtain ws where tr_rf: "snd (refreshToken e (refreshTok v) ?trp)
        = ?trp @ Fetch (refresh_request e (refreshTok v)) # ws"
    and ws: "list_all is_token_write ws"
    using refreshToken_trace by blast
  note quiet = token_writes_are_quiet [OF ws]
  have fl: "fetch_listing e job ?url ?v1 ?tr1 =
     (case refreshToken e (refreshTok v) ?trp of
        (Inl err, tr2) \<Rightarrow> (Inl err, tr2)
      | (Inr rf, tr2) \<Rightarrow>
          (case fetch e tr2 (private_request ?url (rf_access_token rf)) of
             Inl err \<Rightarrow> (Inl err, tr2 @ [Fetch (private_request ?url (rf_access_token rf))])
           | Inr r2 \<Rightarrow>
               (Inr (r2, ?v1\<lparr>accessToken := rf_access_token rf, refreshTok := rf_refresh_token rf\<rparr>),
                tr2 @ [Fetch (private_request ?url (rf_access_token rf))])))"
    using fetch_listing_seller_401 [OF seller first unauth, of ?v1] by simp
  obtain res tr2 where rt: "refreshToken e (refreshTok v) ?trp = (res, tr2)"
    by (cases "refreshToken e (refreshTok v) ?trp")
  have tr2: "tr2 = ?trp @ Fetch (refresh_request e (refreshTok v)) # ws"
    using tr_rf rt by simp
  show ?thesis
  proof (cases res)
    case (Inl err)
    have pj: "process_job e site_id limit job v tr = (Inl err, tr2)"
      by (simp add: process_job_def fl rt Inl)
    then have "job_calls e site_id limit job v tr
        = processing_update e job tr # Fetch (public_request ?url)
          # Fetch (refresh_request e (refreshTok v)) # ws"
      by (simp add: job_calls_def tr2)
    then have "length (filter is_refresh (job_calls e site_id limit job v tr)) = 1
        \<and> filter is_private_fetch (job_calls e site_id limit job v tr) = []"
      using quiet by (simp del: is_refresh.simps is_private_fetch.simps)
    then show ?thesis
      using rt Inl pj by simp
  next
    case (Inr rf)
    let ?priv = "Fetch (private_request ?url (rf_access_token rf))"
    let ?v2 = "?v1\<lparr>accessToken := rf_access_token rf, refreshTok := rf_refresh_token rf\<rparr>"
    show ?thesis
    proof (cases "fetch e tr2 (private_request ?url (rf_access_token rf))")
      case (Inl err)
      have "process_job e site_id limit job v tr = (Inl err, tr2 @ [?priv])"
        by (simp add: process_job_def fl rt Inr Inl)
      then have "job_calls e site_id limit job v tr
          = processing_update e job tr # Fetch (public_request ?url)
            # Fetch (refresh_request e (refreshTok v)) # ws @ [?priv]"
        by (simp add: job_calls_def tr2)
      then show ?thesis
        using quiet rt Inr Inl by (simp del: is_refresh.simps is_private_fetch.simps)
    next
      case r2: (Inr r2)
      have pj: "process_job e site_id limit job v tr = finish_job e site_id job ?v2 r2 (tr2 @ [?priv])"
        by (simp add: process_job_def fl rt Inr r2)
      obtain ws2 where ws2: "snd (finish_job e site_id job ?v2 r2 (tr2 @ [?priv])) = (tr2 @ [?priv]) @ ws2"
        and q2: "list_all (\<lambda>ev. \<not> is_fetch ev \<and> \<not> is_token_write ev) ws2"
        using finish_job_trace by blast
      have calls: "job_calls e site_id limit job v tr
          = processing_update e job tr # Fetch (public_request ?url)
            # Fetch (refresh_request e (refreshTok v)) # ws @ ?priv # ws2"
        using ws2 by (simp add: job_calls_def pj tr2)
      have counts: "length (filter is_refresh (job_calls e site_id limit job v tr)) = 1
          \<and> length (filter is_private_fetch (job_calls e site_id limit job v tr)) \<le> 1
          \<and> filter is_fetch (job_calls e site_id limit job v tr)
               = [Fetch (public_request ?url), Fetch (refresh_request e (refreshTok v)), ?priv]"
        using quiet no_fetch_no_auth [OF q2]
        by (simp add: calls del: is_refresh.simps is_private_fetch.simps)
      have second: "r_status r2 = 401 \<Longrightarrow>
          finish_job e site_id job ?v2 r2 (tr2 @ [?priv]) =
            (Inr (v\<lparr>processed := Suc (processed v),
                    accessToken := rf_access_token rf,
                    refreshTok := rf_refresh_token rf,
                    results := results v @
                      [JobFailed (j_id job) (j_category_id job) 401 (json_or_empty r2)]\<rparr>),
             tr2 @ [?priv, error_update e job (''ML 401 '' @ stringify (json_or_empty r2)) (tr2 @ [?priv])])"
        by (simp add: finish_job_def ok_def digits_401 Let_def)
      show ?thesis
        using counts second rt Inr r2 by (simp add: pj)
    qed
  qed
qed

section \<open>The claims\<close>

subsection \<open>C1: the refresh and the retry on a seller 401\<close>

text \<open>
  Claim C1 as stated: every seller job whose public fetch is answered 401 makes exactly one
  refresh and then exactly one authenticated retry. When the refresh is denied (status 400)
  the job's public fetch is answered 401, one refresh is requested, no request carries a
  bearer header, and the job ends in a thrown error instead of the failure path.
\<close>

theorem denied_refresh_has_no_retry:
  "isSeller job9
   \<and> public_401 refresh_denied_scenario ''MLC'' 50 job9 []
   \<and> length (filter is_refresh (job_calls refresh_denied_scenario ''MLC'' 50 job9 vars0 [])) = 1
   \<and> filter is_private_fetch (job_calls refresh_denied_scenario ''MLC'' 50 job9 vars0 []) = []
   \<and> isl (fst (process_job refresh_denied_scenario ''MLC'' 50 job9 vars0 []))"
  by code_simp

text \<open>
  Claim C1, amended. A seller job whose public fetch is answered 401 requests exactly one
  refresh, with the refresh token held, and makes at most one request with a bearer header.
  When the refresh fails, no such request is made and the thrown error leaves the job. When
  the refresh returns, the job's requests are, in this order: the anonymous GET of its URL,
  the POST of the refresh grant, and one GET of the same URL with the header
  Authorization: Bearer and the new access token; when that GET is answered 401 as well,
  nothing is fetched or refreshed again: the job is set to error, a failure entry with
  status 401 is appended, and the loop goes on.
\<close>

theorem seller_401_refresh_then_retry:
  assumes seller: "isSeller job"
    and first: "fetch e (tr @ [processing_update e job tr]) (public_request (job_url site_id limit job)) = Inr r1"
    and unauth: "r_status r1 = 401"
  shows "filter is_refresh (job_calls e site_id limit job v tr) = [Fetch (refresh_request e (refreshTok v))]
     \<and> length (filter is_private_fetch (job_calls e site_id limit job v tr)) \<le> 1
     \<and> (\<forall>err tr2.
           refreshToken e (refreshTok v)
             (tr @ [processing_update e job tr, Fetch (public_request (job_url site_id limit job))]) = (Inl err, tr2)
           \<longrightarrow> filter is_private_fetch (job_calls e site_id limit job v tr) = []
               \<and> process_job e site_id limit job v tr = (Inl err, tr2))
     \<and> (\<forall>rf tr2.
           refreshToken e (refreshTok v)
             (tr @ [processing_update e job tr, Fetch (public_request (job_url site_id limit job))]) = (Inr rf, tr2)
           \<longrightarrow>
             filter is_fetch (job_calls e site_id limit job v tr)
               = [Fetch \<lparr>f_method = ''GET'', f_url = job_url site_id limit job,
                         f_headers = [(''Accept'', ''application/json''),
                                      (''User-Agent'', ''KelokeTrendsBot/1.0'')],
                         f_body = []\<rparr>,
                  Fetch \<lparr>f_method = ''POST'', f_url = ''https://api.mercadolibre.com/oauth/token'',
                         f_headers = [(''content-type'', ''application/x-www-form-urlencoded'')],
                         f_body = [(''grant_type'', ''refresh_token''),
                                   (''client_id'', ML_CLIENT_ID e),
                                   (''client_secret'', ML_CLIENT_SECRET e),
                                   (''refresh_token'', refreshTok v)]\<rparr>,
                  Fetch \<lparr>f_method = ''GET'', f_url = job_url site_id limit job,
                         f_headers = [(''Authorization'', ''Bearer '' @ rf_access_token rf),
                                      (''Accept'', ''application/json''),
                                      (''User-Agent'', ''KelokeTrendsBot/1.0'')],
                         f_body = []\<rparr>]
           \<and> (\<forall>r2. fetch e tr2 (private_request (job_url site_id limit job) (rf_access_token rf)) = Inr r2
                    \<and> r_status r2 = 401
                 \<longrightarrow> process_job e site_id limit job v tr =
                       (Inr (v\<lparr>processed := Suc (processed v),
                               accessToken := rf_access_token rf,
                               refreshTok := rf_refresh_token rf,
                               results := results v @
                                 [JobFailed (j_id job) (j_category_id job) 401 (json_or_empty r2)]\<rparr>),
                        tr2 @ [Fetch (private_request (job_url site_id limit job) (rf_access_token rf)),
                               UpdateJob (j_id job)
                                 \<lparr>u_status = ''error'', u_attempts = None,
                                  u_updated_at = now_iso e
                                    (tr2 @ [Fetch (private_request (job_url site_id limit job) (rf_access_token rf))]),
                                  u_last_error = Some (''ML 401 '' @ stringify (json_or_empty r2))\<rparr>])))"
proof -
  note shape = seller_401_shape [OF seller first unauth, of v]
  have asked: "filter is_refresh (job_calls e site_id limit job v tr) = [Fetch (refresh_request e (refreshTok v))]"
    using job_refreshes [of e site_id limit job v tr] seller first unauth
    by (simp add: public_401_def)
  have requests:
    "[Fetch (public_request u), Fetch (refresh_request e (refreshTok v)), Fetch (private_request u t)]
       = [Fetch \<lparr>f_method = ''GET'', f_url = u,
                 f_headers = [(''Accept'', ''application/json''),
                              (''User-Agent'', ''KelokeTrendsBot/1.0'')],
                 f_body = []\<rparr>,
          Fetch \<lparr>f_method = ''POST'', f_url = ''https://api.mercadolibre.com/oauth/token'',
                 f_headers = [(''content-type'', ''application/x-www-form-urlencoded'')],
                 f_body = [(''grant_type'', ''refresh_token''),
                           (''client_id'', ML_CLIENT_ID e),
                           (''client_secret'', ML_CLIENT_SECRET e),
                           (''refresh_token'', refreshTok v)]\<rparr>,
          Fetch \<lparr>f_method = ''GET'', f_url = u,
                 f_headers = [(''Authorization'', ''Bearer '' @ t),
                              (''Accept'', ''application/json''),
                              (''User-Agent'', ''KelokeTrendsBot/1.0'')],
                 f_body = []\<rparr>]" for u t
    by (simp add: public_request_def refresh_request_def private_request_def)
  have update: "error_update e job m t =
      UpdateJob (j_id job) \<lparr>u_status = ''error'', u_attempts = None, u_updated_at = now_iso e t,
                            u_last_error = Some m\<rparr>" for m t
    by (simp add: error_update_def)
  show ?thesis
  proof (intro conjI allI impI)
    show "filter is_refresh (job_calls e site_id limit job v tr) = [Fetch (refresh_request e (refreshTok v))]"
      by (rule asked)
  next
    show "length (filter is_private_fetch (job_calls e site_id limit job v tr)) \<le> 1"
      using shape by blast
  next
    fix err tr2
    assume "refreshToken e (refreshTok v)
             (tr @ [processing_update e job tr, Fetch (public_request (job_url site_id limit job))]) = (Inl err, tr2)"
    with shape show "filter is_private_fetch (job_calls e site_id limit job v tr) = []"
      and "process_job e site_id limit job v tr = (Inl err, tr2)"
      by blast+
  next
    fix rf tr2
    assume rt: "refreshToken e (refreshTok v)
             (tr @ [processing_update e job tr, Fetch (public_request (job_url site_id limit job))]) = (Inr rf, tr2)"
    with shape have "filter is_fetch (job_calls e site_id limit job v tr)
               = [Fetch (public_request (job_url site_id limit job)),
                  Fetch (refresh_request e (refreshTok v)),
                  Fetch (private_request (job_url site_id limit job) (rf_access_token rf))]"
      by blast
    then show "filter is_fetch (job_calls e site_id limit job v tr)
               = [Fetch \<lparr>f_method = ''GET'', f_url = job_url site_id limit job,
                         f_headers = [(''Accept'', ''application/json''),
                                      (''User-Agent'', ''KelokeTrendsBot/1.0'')],
                         f_body = []\<rparr>,
                  Fetch \<lparr>f_method = ''POST'', f_url = ''https://api.mercadolibre.com/oauth/token'',
                         f_headers = [(''content-type'', ''application/x-www-form-urlencoded'')],
                         f_body = [(''grant_type'', ''refresh_token''),
                                   (''client_id'', ML_CLIENT_ID e),
                                   (''client_secret'', ML_CLIENT_SECRET e),
                                   (''refresh_token'', refreshTok v)]\<rparr>,
                  Fetch \<lparr>f_method = ''GET'', f_url = job_url site_id limit job,
                         f_headers = [(''Authorization'', ''Bearer '' @ rf_access_token rf),
                                      (''Accept'', ''application/json''),
                                      (''User-Agent'', ''KelokeTrendsBot/1.0'')],
                         f_body = []\<rparr>]"
      by (simp only: requests)
    fix r2
    assume again: "fetch e tr2 (private_request (job_url site_id limit job) (rf_access_token rf)) = Inr r2
                    \<and> r_status r2 = 401"
    with shape rt have "process_job e site_id limit job v tr =
                       (Inr (v\<lparr>processed := Suc (processed v),
                               accessToken := rf_access_token rf,
                               refreshTok := rf_refresh_token rf,
                               results := results v @
                                 [JobFailed (j_id job) (j_category_id job) 401 (json_or_empty r2)]\<rparr>),
                        tr2 @ [Fetch (private_request (job_url site_id limit job) (rf_access_token rf)),
                               error_update e job (''ML 401 '' @ stringify (json_or_empty r2))
                                 (tr2 @ [Fetch (private_request (job_url site_id limit job) (rf_access_token rf))])])"
      by blast
    then show "process_job e site_id limit job v tr =
                       (Inr (v\<lparr>processed := Suc (processed v),
                               accessToken := rf_access_token rf,
                               refreshTok := rf_refresh_token rf,
                               results := results v @
                                 [JobFailed (j_id job) (j_category_id job) 401 (json_or_empty r2)]\<rparr>),
                        tr2 @ [Fetch (private_request (job_url site_id limit job) (rf_access_token rf)),
                               UpdateJob (j_id job)
                                 \<lparr>u_status = ''error'', u_attempts = None,
                                  u_updated_at = now_iso e
                                    (tr2 @ [Fetch (private_request (job_url site_id limit job) (rf_access_token rf))]),
                                  u_last_error = Some (''ML 401 '' @ stringify (json_or_empty r2))\<rparr>])"
      by (simp only: update)
  qed
qed

text \<open>
  The locked-out scenario: the public fetch and the retry of job 9 are both answered 401.
  The refresh-denied scenario: the refresh of job 9 is answered 400.
\<close>

theorem seller_401_refresh_then_retry_witness:
  "isSeller job9
   \<and> r_status unauthorized = 401
   \<and> filter is_fetch (job_calls locked_out_scenario ''MLC'' 50 job9 vars0 [])
       = [Fetch \<lparr>f_method = ''GET'',
                 f_url = ''https://api.mercadolibre.com/users/555/items/search?limit=50'',
                 f_headers = [(''Accept'', ''application/json''),
                              (''User-Agent'', ''KelokeTrendsBot/1.0'')],
                 f_body = []\<rparr>,
          Fetch \<lparr>f_method = ''POST'', f_url = ''https://api.mercadolibre.com/oauth/token'',
                 f_headers = [(''content-type'', ''application/x-www-form-urlencoded'')],
                 f_body = [(''grant_type'', ''refresh_token''), (''client_id'', ''app''),
                           (''client_secret'', ''secret''), (''refresh_token'', ''RT1'')]\<rparr>,
          Fetch \<lparr>f_method = ''GET'',
                 f_url = ''https://api.mercadolibre.com/users/555/items/search?limit=50'',
                 f_headers = [(''Authorization'', ''Bearer AT2''),
                              (''Accept'', ''application/json''),
                              (''User-Agent'', ''KelokeTrendsBot/1.0'')],
                 f_body = []\<rparr>]
   \<and> (case fst (process_job locked_out_scenario ''MLC'' 50 job9 vars0 []) of
         Inl err \<Rightarrow> []
       | Inr v \<Rightarrow> results v)
       = [JobFailed 9 ''SELLER:555'' 401 (JObj [(''message'', JStr ''unauthorized'')])]
   \<and> filter is_private_fetch (job_calls refresh_denied_scenario ''MLC'' 50 job9 vars0 []) = []
   \<and> isl (fst (process_job refresh_denied_scenario ''MLC'' 50 job9 vars0 []))"
proof -
  let ?url = "job_url ''MLC'' 50 job9"
  have seller: "isSeller job9"
    by code_simp
  have unauth: "r_status unauthorized = 401"
    by code_simp
  have url: "?url = ''https://api.mercadolibre.com/users/555/items/search?limit=50''"
    by code_simp
  have held: "refreshTok vars0 = ''RT1''"
    and app: "ML_CLIENT_ID locked_out_scenario = ''app''" "ML_CLIENT_SECRET locked_out_scenario = ''secret''"
    by code_simp+
  have first: "fetch locked_out_scenario ([] @ [processing_update locked_out_scenario job9 []])
                 (public_request ?url) = Inr unauthorized"
    by (simp add: locked_out_scenario_def scenario_def public_request_def)
  note locked = seller_401_refresh_then_retry [OF seller first unauth, of vars0]
  have "fst (refreshToken locked_out_scenario (refreshTok vars0)
               ([] @ [processing_update locked_out_scenario job9 [], Fetch (public_request ?url)]))
        = Inr \<lparr>rf_access_token = ''AT2'', rf_refresh_token = ''RT2'',
               rf_expires_at = ''2024-05-01T18:00:00.000Z''\<rparr>"
    by code_simp
  then obtain tr2 where refreshed:
    "refreshToken locked_out_scenario (refreshTok vars0)
       ([] @ [processing_update locked_out_scenario job9 [], Fetch (public_request ?url)])
     = (Inr \<lparr>rf_access_token = ''AT2'', rf_refresh_token = ''RT2'',
              rf_expires_at = ''2024-05-01T18:00:00.000Z''\<rparr>, tr2)"
    by (cases "refreshToken locked_out_scenario (refreshTok vars0)
                 ([] @ [processing_update locked_out_scenario job9 [], Fetch (public_request ?url)])") simp
  have again: "fetch locked_out_scenario tr2 (private_request ?url ''AT2'') = Inr unauthorized"
    by (simp add: locked_out_scenario_def scenario_def private_request_def)
  have payload: "json_or_empty unauthorized = JObj [(''message'', JStr ''unauthorized'')]"
    by code_simp
  have ids: "j_id job9 = 9" "j_category_id job9 = ''SELLER:555''" "results vars0 = []"
    by code_simp+
  from locked refreshed
  have fetched: "filter is_fetch (job_calls locked_out_scenario ''MLC'' 50 job9 vars0 [])
       = [Fetch \<lparr>f_method = ''GET'',
                 f_url = ''https://api.mercadolibre.com/users/555/items/search?limit=50'',
                 f_headers = [(''Accept'', ''application/json''),
                              (''User-Agent'', ''KelokeTrendsBot/1.0'')],
                 f_body = []\<rparr>,
          Fetch \<lparr>f_method = ''POST'', f_url = ''https://api.mercadolibre.com/oauth/token'',
                 f_headers = [(''content-type'', ''application/x-www-form-urlencoded'')],
                 f_body = [(''grant_type'', ''refresh_token''), (''client_id'', ''app''),
                           (''client_secret'', ''secret''), (''refresh_token'', ''RT1'')]\<rparr>,
          Fetch \<lparr>f_method = ''GET'',
                 f_url = ''https://api.mercadolibre.com/users/555/items/search?limit=50'',
                 f_headers = [(''Authorization'', ''Bearer AT2''),
                              (''Accept'', ''application/json''),
                              (''User-Agent'', ''KelokeTrendsBot/1.0'')],
                 f_body = []\<rparr>]"
    by (simp add: url held app)
  from locked refreshed again unauth
  have "\<exists>tr'. process_job locked_out_scenario ''MLC'' 50 job9 vars0 [] =
          (Inr (vars0\<lparr>processed := Suc (processed vars0), accessToken := ''AT2'', refreshTok := ''RT2'',
                  results := results vars0 @ [JobFailed (j_id job9) (j_category_id job9) 401
                                                (json_or_empty unauthorized)]\<rparr>), tr')"
    by simp
  then have failed: "(case fst (process_job locked_out_scenario ''MLC'' 50 job9 vars0 []) of
                Inl err \<Rightarrow> []
              | Inr v \<Rightarrow> results v)
             = [JobFailed 9 ''SELLER:555'' 401 (JObj [(''message'', JStr ''unauthorized'')])]"
    by (auto simp: payload ids)
  have first_denied: "fetch refresh_denied_scenario ([] @ [processing_update refresh_denied_scenario job9 []])
                 (public_request ?url) = Inr unauthorized"
    by (simp add: refresh_denied_scenario_def scenario_def public_request_def)
  note denied = seller_401_refresh_then_retry [OF seller first_denied unauth, of vars0]
  have "isl (fst (refreshToken refresh_denied_scenario (refreshTok vars0)
               ([] @ [processing_update refresh_denied_scenario job9 [], Fetch (public_request ?url)])))"
    by code_simp
  then obtain err where "fst (refreshToken refresh_denied_scenario (refreshTok vars0)
               ([] @ [processing_update refresh_denied_scenario job9 [], Fetch (public_request ?url)])) = Inl err"
    by (cases "fst (refreshToken refresh_denied_scenario (refreshTok vars0)
               ([] @ [processing_update refresh_denied_scenario job9 [], Fetch (public_request ?url)]))") simp_all
  then obtain tr3 where refused:
    "refreshToken refresh_denied_scenario (refreshTok vars0)
       ([] @ [processing_update refresh_denied_scenario job9 [], Fetch (public_request ?url)]) = (Inl err, tr3)"
    by (cases "refreshToken refresh_denied_scenario (refreshTok vars0)
                 ([] @ [processing_update refresh_denied_scenario job9 [], Fetch (public_request ?url)])") simp
  from denied refused
  have none: "filter is_private_fetch (job_calls refresh_denied_scenario ''MLC'' 50 job9 vars0 []) = []
      \<and> process_job refresh_denied_scenario ''MLC'' 50 job9 vars0 [] = (Inl err, tr3)"
    by blast
  then have left: "isl (fst (process_job refresh_denied_scenario ''MLC'' 50 job9 vars0 []))"
    by simp
  from seller unauth fetched failed none left show ?thesis
    by blast
qed
subsection \<open>C2: a category job is always fetched publicly\<close>

text \<open>
  Claim C2. A job whose category_id does not start with the seller marker makes exactly one
  marketplace call, the anonymous public fetch of its URL: no request carries a bearer
  header, no refresh is requested, no credential is written, and the token pair held in
  memory is the same after the job.
\<close>

theorem category_job_public_only:
  assumes "\<not> isSeller job"
  shows "filter is_fetch (job_calls e site_id limit job v tr) = [Fetch (public_request (job_url site_id limit job))]
       \<and> list_all (\<lambda>ev. \<not> is_private_fetch ev \<and> \<not> is_refresh ev \<and> \<not> is_token_write ev)
            (job_calls e site_id limit job v tr)
       \<and> (\<forall>v' tr'. process_job e site_id limit job v tr = (Inr v', tr') \<longrightarrow>
             accessToken v' = accessToken v \<and> refreshTok v' = refreshTok v)"
proof (cases "fetch e (tr @ [processing_update e job tr]) (public_request (job_url site_id limit job))")
  case (Inl err)
  then show ?thesis
    using assms
    by (simp add: job_calls_def process_job_def fetch_listing_category
             del: is_refresh.simps is_private_fetch.simps)
next
  case (Inr r)
  let ?tr2 = "tr @ [processing_update e job tr, Fetch (public_request (job_url site_id limit job))]"
  let ?v2 = "v\<lparr>processed := Suc (processed v)\<rparr>"
  have pj: "process_job e site_id limit job v tr = finish_job e site_id job ?v2 r ?tr2"
    using assms Inr by (simp add: process_job_def fetch_listing_category)
  obtain ws where ws: "snd (finish_job e site_id job ?v2 r ?tr2) = ?tr2 @ ws"
    and quiet: "list_all (\<lambda>ev. \<not> is_fetch ev \<and> \<not> is_token_write ev) ws"
    using finish_job_trace by blast
  have calls: "job_calls e site_id limit job v tr
      = processing_update e job tr # Fetch (public_request (job_url site_id limit job)) # ws"
    using ws by (simp add: job_calls_def pj)
  have tok: "\<forall>v' tr'. process_job e site_id limit job v tr = (Inr v', tr') \<longrightarrow>
             accessToken v' = accessToken v \<and> refreshTok v' = refreshTok v"
  proof (intro allI impI)
    fix v' tr'
    assume "process_job e site_id limit job v tr = (Inr v', tr')"
    then have "finish_job e site_id job ?v2 r ?tr2 = (Inr v', tr')"
      by (simp only: pj)
    from finish_job_tokens [OF this]
    show "accessToken v' = accessToken v \<and> refreshTok v' = refreshTok v"
      by simp
  qed
  have shape: "filter is_fetch (job_calls e site_id limit job v tr)
        = [Fetch (public_request (job_url site_id limit job))]
      \<and> list_all (\<lambda>ev. \<not> is_private_fetch ev \<and> \<not> is_refresh ev \<and> \<not> is_token_write ev)
            (job_calls e site_id limit job v tr)"
    using no_fetch_no_auth [OF quiet]
    by (simp add: calls del: is_refresh.simps is_private_fetch.simps)
  from shape tok show ?thesis by blast
qed

text \<open>
  The category scenario: job 7 of site MLC, category MLC1234.
\<close>

theorem category_job_public_only_witness:
  "\<not> isSeller job7
   \<and> filter is_fetch (job_calls category_scenario ''MLC'' 50 job7 vars0 [])
       = [Fetch (public_request ''https://api.mercadolibre.com/sites/MLC/search?category=MLC1234&limit=50'')]
   \<and> list_all (\<lambda>ev. \<not> is_private_fetch ev \<and> \<not> is_refresh ev \<and> \<not> is_token_write ev)
        (job_calls category_scenario ''MLC'' 50 job7 vars0 [])"
proof -
  have category: "\<not> isSeller job7"
    by code_simp
  have url: "job_url ''MLC'' 50 job7 = ''https://api.mercadolibre.com/sites/MLC/search?category=MLC1234&limit=50''"
    by code_simp
  from category_job_public_only [OF category, of category_scenario "''MLC''" 50 vars0 "[]"]
  show ?thesis
    using category by (simp only: url simp_thms)
qed

subsection \<open>C3: how often the token pair is refreshed\<close>

text \<open>
  Claim C3 as stated: the pair is replaced at most once per invocation, and later seller
  jobs do not refresh again. With two seller jobs whose public fetches are both answered
  401 the handler requests two refreshes, the second with the refresh token the first one
  returned.
\<close>

theorem two_seller_jobs_refresh_twice:
  "\<not> refreshed_at_most_once (snd (handler two_sellers_scenario post_request))
   \<and> filter is_refresh (snd (handler two_sellers_scenario post_request))
       = [Fetch (refresh_request two_sellers_scenario ''RT1''),
          Fetch (refresh_request two_sellers_scenario ''RT2'')]"
  by code_simp

text \<open>
  Claim C3, amended. A job requests a refresh exactly when it is a seller job whose public
  fetch is answered 401, and then with the refresh token held at that moment; when such a
  job completes, the pair held in memory is the one that refresh returned; any other job
  that completes leaves the pair as it found it. So a batch requests at most as many
  refreshes as it has seller jobs.
\<close>

theorem refresh_per_seller_401:
  "filter is_refresh (job_calls e site_id limit job v tr)
     = (if isSeller job \<and> public_401 e site_id limit job tr
        then [Fetch (refresh_request e (refreshTok v))] else [])
   \<and> (\<forall>v' tr'. process_job e site_id limit job v tr = (Inr v', tr')
          \<and> \<not> (isSeller job \<and> public_401 e site_id limit job tr)
        \<longrightarrow> accessToken v' = accessToken v \<and> refreshTok v' = refreshTok v)
   \<and> (\<forall>v' tr' rf tr2. process_job e site_id limit job v tr = (Inr v', tr')
          \<and> isSeller job \<and> public_401 e site_id limit job tr
          \<and> refreshToken e (refreshTok v)
               (tr @ [processing_update e job tr, Fetch (public_request (job_url site_id limit job))])
              = (Inr rf, tr2)
        \<longrightarrow> accessToken v' = rf_access_token rf \<and> refreshTok v' = rf_refresh_token rf)
   \<and> length (filter is_refresh (batch_calls e site_id limit jobs v tr)) \<le> length (filter isSeller jobs)"
proof (intro conjI allI impI)
  show "filter is_refresh (job_calls e site_id limit job v tr)
     = (if isSeller job \<and> public_401 e site_id limit job tr
        then [Fetch (refresh_request e (refreshTok v))] else [])"
    by (rule job_refreshes)
next
  fix v' tr'
  assume "process_job e site_id limit job v tr = (Inr v', tr')
          \<and> \<not> (isSeller job \<and> public_401 e site_id limit job tr)"
  then show "accessToken v' = accessToken v" and "refreshTok v' = refreshTok v"
    using job_keeps_tokens [of job e site_id limit tr v v' tr'] by simp_all
next
  fix v' tr' rf tr2
  assume "process_job e site_id limit job v tr = (Inr v', tr')
          \<and> isSeller job \<and> public_401 e site_id limit job tr
          \<and> refreshToken e (refreshTok v)
               (tr @ [processing_update e job tr, Fetch (public_request (job_url site_id limit job))])
              = (Inr rf, tr2)"
  then show "accessToken v' = rf_access_token rf" and "refreshTok v' = rf_refresh_token rf"
    using job_takes_refreshed_tokens [of job e site_id limit tr v rf tr2 v' tr'] by simp_all
next
  show "length (filter is_refresh (batch_calls e site_id limit jobs v tr)) \<le> length (filter isSeller jobs)"
    by (rule batch_refresh_bound)
qed

text \<open>
  The category scenario: no refresh, and the pair (AT1, RT1) is kept. The seller scenario:
  one refresh with RT1, and the pair becomes (AT2, RT2).
\<close>

theorem refresh_per_seller_401_witness:
  "\<not> isSeller job7
   \<and> filter is_refresh (job_calls category_scenario ''MLC'' 50 job7 vars0 []) = []
   \<and> map_sum (\<lambda>err. ()) (\<lambda>v. (accessToken v, refreshTok v))
        (fst (process_job category_scenario ''MLC'' 50 job7 vars0 [])) = Inr (''AT1'', ''RT1'')
   \<and> isSeller job9 \<and> public_401 seller_scenario ''MLC'' 50 job9 []
   \<and> filter is_refresh (job_calls seller_scenario ''MLC'' 50 job9 vars0 [])
       = [Fetch (refresh_request seller_scenario ''RT1'')]
   \<and> map_sum (\<lambda>err. ()) (\<lambda>v. (accessToken v, refreshTok v))
        (fst (process_job seller_scenario ''MLC'' 50 job9 vars0 [])) = Inr (''AT2'', ''RT2'')
   \<and> length (filter is_refresh (batch_calls category_scenario ''MLC'' 50 [job7] vars0 [])) = 0"
proof -
  have start: "accessToken vars0 = ''AT1''" "refreshTok vars0 = ''RT1''"
    by code_simp+
  have category: "\<not> isSeller job7"
    by code_simp
  note quiet = refresh_per_seller_401 [of category_scenario "''MLC''" 50 job7 vars0 "[]" "[job7]"]
  have "\<not> isl (fst (process_job category_scenario ''MLC'' 50 job7 vars0 []))"
    by code_simp
  then obtain v7 where "fst (process_job category_scenario ''MLC'' 50 job7 vars0 []) = Inr v7"
    by (cases "fst (process_job category_scenario ''MLC'' 50 job7 vars0 [])") simp_all
  then obtain tr7 where run7: "process_job category_scenario ''MLC'' 50 job7 vars0 [] = (Inr v7, tr7)"
    by (cases "process_job category_scenario ''MLC'' 50 job7 vars0 []") simp
  from quiet run7 category have "accessToken v7 = ''AT1'' \<and> refreshTok v7 = ''RT1''"
    by (simp add: start)
  then have kept: "map_sum (\<lambda>err. ()) (\<lambda>v. (accessToken v, refreshTok v))
        (fst (process_job category_scenario ''MLC'' 50 job7 vars0 [])) = Inr (''AT1'', ''RT1'')"
    by (simp add: run7)
  have seller: "isSeller job9" and unauth: "public_401 seller_scenario ''MLC'' 50 job9 []"
    by code_simp+
  note loud = refresh_per_seller_401 [of seller_scenario "''MLC''" 50 job9 vars0 "[]" "[job9]"]
  have "fst (refreshToken seller_scenario (refreshTok vars0)
               ([] @ [processing_update seller_scenario job9 [],
                      Fetch (public_request (job_url ''MLC'' 50 job9))]))
        = Inr \<lparr>rf_access_token = ''AT2'', rf_refresh_token = ''RT2'',
               rf_expires_at = ''2024-05-01T18:00:00.000Z''\<rparr>"
    by code_simp
  then obtain tr2 where refreshed:
    "refreshToken seller_scenario (refreshTok vars0)
       ([] @ [processing_update seller_scenario job9 [], Fetch (public_request (job_url ''MLC'' 50 job9))])
     = (Inr \<lparr>rf_access_token = ''AT2'', rf_refresh_token = ''RT2'',
              rf_expires_at = ''2024-05-01T18:00:00.000Z''\<rparr>, tr2)"
    by (cases "refreshToken seller_scenario (refreshTok vars0)
                 ([] @ [processing_update seller_scenario job9 [],
                        Fetch (public_request (job_url ''MLC'' 50 job9))])") simp
  have "\<not> isl (fst (process_job seller_scenario ''MLC'' 50 job9 vars0 []))"
    by code_simp
  then obtain v9 where "fst (process_job seller_scenario ''MLC'' 50 job9 vars0 []) = Inr v9"
    by (cases "fst (process_job seller_scenario ''MLC'' 50 job9 vars0 [])") simp_all
  then obtain tr9 where run9: "process_job seller_scenario ''MLC'' 50 job9 vars0 [] = (Inr v9, tr9)"
    by (cases "process_job seller_scenario ''MLC'' 50 job9 vars0 []") simp
  from loud have "process_job seller_scenario ''MLC'' 50 job9 vars0 [] = (Inr v9, tr9)
          \<and> isSeller job9 \<and> public_401 seller_scenario ''MLC'' 50 job9 []
          \<and> refreshToken seller_scenario (refreshTok vars0)
               ([] @ [processing_update seller_scenario job9 [],
                      Fetch (public_request (job_url ''MLC'' 50 job9))])
              = (Inr \<lparr>rf_access_token = ''AT2'', rf_refresh_token = ''RT2'',
                       rf_expires_at = ''2024-05-01T18:00:00.000Z''\<rparr>, tr2)
        \<longrightarrow> accessToken v9 = rf_access_token \<lparr>rf_access_token = ''AT2'', rf_refresh_token = ''RT2'',
                       rf_expires_at = ''2024-05-01T18:00:00.000Z''\<rparr>
          \<and> refreshTok v9 = rf_refresh_token \<lparr>rf_access_token = ''AT2'', rf_refresh_token = ''RT2'',
                       rf_expires_at = ''2024-05-01T18:00:00.000Z''\<rparr>"
    by blast
  with run9 seller unauth refreshed have "accessToken v9 = ''AT2'' \<and> refreshTok v9 = ''RT2''"
    by simp
  then have taken: "map_sum (\<lambda>err. ()) (\<lambda>v. (accessToken v, refreshTok v))
        (fst (process_job seller_scenario ''MLC'' 50 job9 vars0 [])) = Inr (''AT2'', ''RT2'')"
    by (simp add: run9)
  from loud seller unauth
  have asked: "filter is_refresh (job_calls seller_scenario ''MLC'' 50 job9 vars0 [])
       = [Fetch (refresh_request seller_scenario ''RT1'')]"
    by (simp add: start)
  from quiet category kept seller unauth asked taken show ?thesis
    by simp
qed

subsection \<open>C4: extraction of the items\<close>

text \<open>
  Claim C4. extractItems returns the "results" field of the payload when that field is a
  non-empty list, else the payload when it is a non-empty list, else the empty list; it
  returns the empty list for {}, {results: []} and [], and the list itself for
  {results: [{id: 1}]} and for ["MLA1", "MLA2"].
\<close>

theorem extractItems_as_described:
  "extractItems category_id payload = described_items payload
   \<and> extractItems category_id (JObj []) = []
   \<and> extractItems category_id (JObj [(''results'', JArr [])]) = []
   \<and> extractItems category_id (JArr []) = []
   \<and> extractItems category_id (JObj [(''results'', JArr [JObj [(''id'', JNum 1)]])]) = [JObj [(''id'', JNum 1)]]
   \<and> extractItems category_id (JArr [JStr ''MLA1'', JStr ''MLA2'']) = [JStr ''MLA1'', JStr ''MLA2'']"
proof -
  have general: "extractItems category_id payload = described_items payload"
  proof (cases "isArray (opt_member payload ''results'') \<and> length (elements (opt_member payload ''results'')) > 0")
    case True
    then show ?thesis
      by (simp add: extractItems_def described_items_def nonempty_list_eq)
  next
    case False
    then have none: "nonempty_list (opt_member payload ''results'') = None"
      by (simp add: nonempty_list_eq)
    from False have "extractItems category_id payload
        = (case nonempty_list (Some payload) of Some ys \<Rightarrow> ys | None \<Rightarrow> [])"
      by (auto simp: extractItems_def nonempty_list_eq)
    then show ?thesis
      by (simp add: described_items_def none)
  qed
  have empty: "extractItems category_id (JObj []) = []"
    "extractItems category_id (JObj [(''results'', JArr [])]) = []"
    "extractItems category_id (JArr []) = []"
    by (simp_all add: extractItems_def)
  have kept: "extractItems category_id (JObj [(''results'', JArr [JObj [(''id'', JNum 1)]])]) = [JObj [(''id'', JNum 1)]]"
    "extractItems category_id (JArr [JStr ''MLA1'', JStr ''MLA2'']) = [JStr ''MLA1'', JStr ''MLA2'']"
    by (simp_all add: extractItems_def)
  from general empty kept show ?thesis
    by simp
qed

text \<open>
  A wrapped listing, a bare list of identifiers, and a payload that is a string.
\<close>

theorem extractItems_as_described_witness:
  "extractItems ''MLC1234'' listing
     = [JObj [(''id'', JStr ''MLC111''), (''title'', JStr ''X''), (''price'', JNum 10), (''currency_id'', JStr ''CLP'')]]
   \<and> extractItems ''SELLER:555'' (JArr [JStr ''MLC999'']) = [JStr ''MLC999'']
   \<and> extractItems ''MLC1234'' (JStr ''results'') = []"
proof -
  have "described_items listing
     = [JObj [(''id'', JStr ''MLC111''), (''title'', JStr ''X''), (''price'', JNum 10), (''currency_id'', JStr ''CLP'')]]"
    and "described_items (JArr [JStr ''MLC999'']) = [JStr ''MLC999'']"
    and "described_items (JStr ''results'') = []"
    by code_simp+
  then show ?thesis
    using extractItems_as_described [of "''MLC1234''" listing]
      extractItems_as_described [of "''SELLER:555''" "JArr [JStr ''MLC999'']"]
      extractItems_as_described [of "''MLC1234''" "JStr ''results''"]
    by simp
qed

subsection \<open>C5: normalization of an item\<close>

text \<open>
  Claim C5 as stated: every extracted item that is not a string gets a row built from its
  fields. An item that is null gets no row: reading its id throws, and a listing that holds
  one is answered with status 500 and nothing is upserted.
\<close>

theorem null_item_has_no_row:
  "extractItems ''MLC1234'' (JObj [(''results'', JArr [JNull])]) = [JNull]
   \<and> item_row_of job7 ''MLC'' JNull = Inl (null_read_error ''id'')
   \<and> fst (handler null_item_scenario post_request)
       = Inr (500, Failure (message (null_read_error ''id'')))
   \<and> upserted_rows (snd (handler null_item_scenario post_request)) = []"
  by code_simp

text \<open>
  Claim C5, amended. The row of an item that is a string has that string as item_id, null
  for title, permalink, price, currency_id and seller_id, and the item as raw. For an item
  that is an object, item_id is the conversion of its id field to a string: the id itself
  when it is a string, its digits when it is a number, "undefined" when there is none; the
  conversion throws when the id is an object with a toString key of its own, and then there
  is no row. Otherwise the row has title, permalink, price and currency_id from the
  like-named fields (null when there is none), seller_id from the id of the nested seller
  object when present, else from the flat seller_id field, else null, and the object as
  raw. An item that is a number, a boolean or an array has a row with item_id "undefined"
  and null fields. An item that is null has no row: reading its id throws. For the seller
  job 9 whose first fetch is answered 401, whose refresh succeeds and whose retry returns
  ["MLC999"], exactly one row is upserted, with item_id MLC999 and null fields, and the
  result entry has mode seller.
\<close>

theorem item_row_by_shape:
  "item_row_of job site_id (JStr s) =
     Inr \<lparr>i_job_id = j_id job, i_site_id = site_id, i_category_id = j_category_id job,
          i_item_id = s,
          i_title = JNull, i_permalink = JNull, i_price = JNull, i_currency_id = JNull,
          i_seller_id = JNull, i_raw = JStr s\<rparr>
   \<and> item_row_of job site_id (JObj kvs) =
       (case js_String_opt (map_of kvs ''id'') of
          Inl err \<Rightarrow> Inl err
        | Inr item_id \<Rightarrow>
            Inr \<lparr>i_job_id = j_id job, i_site_id = site_id, i_category_id = j_category_id job,
                 i_item_id = item_id,
                 i_title = field_or_null kvs ''title'',
                 i_permalink = field_or_null kvs ''permalink'',
                 i_price = field_or_null kvs ''price'',
                 i_currency_id = field_or_null kvs ''currency_id'',
                 i_seller_id = described_seller_id kvs,
                 i_raw = JObj kvs\<rparr>)
   \<and> js_String_opt None = Inr ''undefined''
   \<and> js_String_opt (Some (JStr s)) = Inr s
   \<and> js_String_opt (Some (JNum n)) = Inr (show_int n)
   \<and> (map_of ikvs ''toString'' \<noteq> None \<longrightarrow> js_String_opt (Some (JObj ikvs)) = Inl primitive_error)
   \<and> (it = JNum n \<or> it = JBool b \<or> it = JArr xs \<longrightarrow>
        item_row_of job site_id it =
          Inr \<lparr>i_job_id = j_id job, i_site_id = site_id, i_category_id = j_category_id job,
               i_item_id = ''undefined'',
               i_title = JNull, i_permalink = JNull, i_price = JNull, i_currency_id = JNull,
               i_seller_id = JNull, i_raw = it\<rparr>)
   \<and> item_row_of job site_id JNull = Inl (null_read_error ''id'')
   \<and> upserted_rows (snd (handler seller_scenario post_request)) =
       [\<lparr>i_job_id = 9, i_site_id = ''MLC'', i_category_id = ''SELLER:555'', i_item_id = ''MLC999'',
         i_title = JNull, i_permalink = JNull, i_price = JNull, i_currency_id = JNull,
         i_seller_id = JNull, i_raw = JStr ''MLC999''\<rparr>]
   \<and> fst (handler seller_scenario post_request)
       = Inr (200, Summary ''MLC'' 1 1 ''db'' 3 [JobOk 9 ''SELLER:555'' 1 ''seller''])"
proof -
  have text_item: "item_row_of job site_id (JStr s) =
     Inr \<lparr>i_job_id = j_id job, i_site_id = site_id, i_category_id = j_category_id job,
          i_item_id = s,
          i_title = JNull, i_permalink = JNull, i_price = JNull, i_currency_id = JNull,
          i_seller_id = JNull, i_raw = JStr s\<rparr>"
    by (simp add: item_row_of_def)
  have object_item: "item_row_of job site_id (JObj kvs) =
       (case js_String_opt (map_of kvs ''id'') of
          Inl err \<Rightarrow> Inl err
        | Inr item_id \<Rightarrow>
            Inr \<lparr>i_job_id = j_id job, i_site_id = site_id, i_category_id = j_category_id job,
                 i_item_id = item_id,
                 i_title = field_or_null kvs ''title'',
                 i_permalink = field_or_null kvs ''permalink'',
                 i_price = field_or_null kvs ''price'',
                 i_currency_id = field_or_null kvs ''currency_id'',
                 i_seller_id = described_seller_id kvs,
                 i_raw = JObj kvs\<rparr>)"
    by (simp add: item_row_of_def nullish_field seller_id_described split: sum.splits)
  have conversions: "js_String_opt None = Inr ''undefined''"
    "js_String_opt (Some (JStr s)) = Inr s"
    "js_String_opt (Some (JNum n)) = Inr (show_int n)"
    "map_of ikvs ''toString'' \<noteq> None \<longrightarrow> js_String_opt (Some (JObj ikvs)) = Inl primitive_error"
    by simp_all
  have other_item: "it = JNum n \<or> it = JBool b \<or> it = JArr xs \<longrightarrow>
        item_row_of job site_id it =
          Inr \<lparr>i_job_id = j_id job, i_site_id = site_id, i_category_id = j_category_id job,
               i_item_id = ''undefined'',
               i_title = JNull, i_permalink = JNull, i_price = JNull, i_currency_id = JNull,
               i_seller_id = JNull, i_raw = it\<rparr>"
    by (auto simp: item_row_of_def seller_of_def)
  have scenario_rows: "upserted_rows (snd (handler seller_scenario post_request)) =
       [\<lparr>i_job_id = 9, i_site_id = ''MLC'', i_category_id = ''SELLER:555'', i_item_id = ''MLC999'',
         i_title = JNull, i_permalink = JNull, i_price = JNull, i_currency_id = JNull,
         i_seller_id = JNull, i_raw = JStr ''MLC999''\<rparr>]"
    by code_simp
  have scenario_reply: "fst (handler seller_scenario post_request)
       = Inr (200, Summary ''MLC'' 1 1 ''db'' 3 [JobOk 9 ''SELLER:555'' 1 ''seller''])"
    by code_simp
  from text_item object_item conversions other_item null_item_throws [of job site_id]
    scenario_rows scenario_reply
  show ?thesis
    by blast
qed

text \<open>
  The listing of job 7; the two sources of seller_id; an id that is a number, an id that
  cannot be converted, and an item that is a number.
\<close>

theorem item_row_by_shape_witness:
  "map (item_row_of job7 ''MLC'') (extractItems ''MLC1234'' listing) =
     [Inr \<lparr>i_job_id = 7, i_site_id = ''MLC'', i_category_id = ''MLC1234'', i_item_id = ''MLC111'',
           i_title = JStr ''X'', i_permalink = JNull, i_price = JNum 10, i_currency_id = JStr ''CLP'',
           i_seller_id = JNull,
           i_raw = JObj [(''id'', JStr ''MLC111''), (''title'', JStr ''X''), (''price'', JNum 10),
                         (''currency_id'', JStr ''CLP'')]\<rparr>]
   \<and> map_sum (\<lambda>err. ()) i_seller_id (item_row_of job7 ''MLC''
         (JObj [(''id'', JStr ''MLC5''), (''seller'', JObj [(''id'', JNum 77)]), (''seller_id'', JNum 1)]))
       = Inr (JNum 77)
   \<and> map_sum (\<lambda>err. ()) i_seller_id (item_row_of job7 ''MLC''
         (JObj [(''id'', JStr ''MLC5''), (''seller'', JObj []), (''seller_id'', JNum 1)]))
       = Inr (JNum 1)
   \<and> map_sum (\<lambda>err. ()) i_item_id (item_row_of job7 ''MLC'' (JObj [(''id'', JNum 123)])) = Inr ''123''
   \<and> map_of [(''toString'', JNum 1)] ''toString'' \<noteq> None
   \<and> item_row_of job7 ''MLC'' (JObj [(''id'', JObj [(''toString'', JNum 1)])]) = Inl primitive_error
   \<and> map_sum (\<lambda>err. ()) i_item_id (item_row_of job7 ''MLC'' (JNum 5)) = Inr ''undefined''"
proof -
  let ?it = "[(''id'', JStr ''MLC111''), (''title'', JStr ''X''), (''price'', JNum 10),
              (''currency_id'', JStr ''CLP'')]"
  let ?nested = "[(''id'', JStr ''MLC5''), (''seller'', JObj [(''id'', JNum 77)]), (''seller_id'', JNum 1)]"
  let ?flat = "[(''id'', JStr ''MLC5''), (''seller'', JObj []), (''seller_id'', JNum 1)]"
  let ?numbered = "[(''id'', JNum 123)]"
  let ?odd = "[(''id'', JObj [(''toString'', JNum 1)])]"
  have items: "extractItems ''MLC1234'' listing = [JObj ?it]"
    by code_simp
  have fields: "j_id job7 = 7" "j_category_id job7 = ''MLC1234''"
    "js_String_opt (map_of ?it ''id'') = Inr ''MLC111''"
    "field_or_null ?it ''title'' = JStr ''X''" "field_or_null ?it ''permalink'' = JNull"
    "field_or_null ?it ''price'' = JNum 10" "field_or_null ?it ''currency_id'' = JStr ''CLP''"
    "described_seller_id ?it = JNull"
    "js_String_opt (map_of ?nested ''id'') = Inr ''MLC5''"
    "js_String_opt (map_of ?flat ''id'') = Inr ''MLC5''"
    "described_seller_id ?nested = JNum 77" "described_seller_id ?flat = JNum 1"
    "map_of ?numbered ''id'' = Some (JNum 123)" "show_int 123 = ''123''"
    "map_of ?odd ''id'' = Some (JObj [(''toString'', JNum 1)])"
    by code_simp+
  have own: "map_of [(''toString'', JNum 1)] ''toString'' \<noteq> None"
    by simp
  note listed = item_row_by_shape [of job7 "''MLC''" "''MLC5''" ?it 123 "[(''toString'', JNum 1)]" "JNum 5" True "[]"]
  note nested = item_row_by_shape [of job7 "''MLC''" "''MLC5''" ?nested 5 "[(''toString'', JNum 1)]" "JNum 5" True "[]"]
  note flat = item_row_by_shape [of job7 "''MLC''" "''MLC5''" ?flat 5 "[(''toString'', JNum 1)]" "JNum 5" True "[]"]
  note numbered = item_row_by_shape [of job7 "''MLC''" "''MLC5''" ?numbered 5 "[(''toString'', JNum 1)]" "JNum 5" True "[]"]
  note odd = item_row_by_shape [of job7 "''MLC''" "''MLC5''" ?odd 5 "[(''toString'', JNum 1)]" "JNum 5" True "[]"]
  have one: "map (item_row_of job7 ''MLC'') (extractItems ''MLC1234'' listing) =
     [Inr \<lparr>i_job_id = 7, i_site_id = ''MLC'', i_category_id = ''MLC1234'', i_item_id = ''MLC111'',
           i_title = JStr ''X'', i_permalink = JNull, i_price = JNum 10, i_currency_id = JStr ''CLP'',
           i_seller_id = JNull,
           i_raw = JObj ?it\<rparr>]"
    using listed by (simp add: items fields)
  have two: "map_sum (\<lambda>err. ()) i_seller_id (item_row_of job7 ''MLC'' (JObj ?nested)) = Inr (JNum 77)"
    using nested by (simp add: fields)
  have three: "map_sum (\<lambda>err. ()) i_seller_id (item_row_of job7 ''MLC'' (JObj ?flat)) = Inr (JNum 1)"
    using flat by (simp add: fields)
  have four: "map_sum (\<lambda>err. ()) i_item_id (item_row_of job7 ''MLC'' (JObj ?numbered)) = Inr ''123''"
    using numbered listed by (simp add: fields)
  have five: "item_row_of job7 ''MLC'' (JObj ?odd) = Inl primitive_error"
    using odd own by (simp add: fields)
  have six: "map_sum (\<lambda>err. ()) i_item_id (item_row_of job7 ''MLC'' (JNum 5)) = Inr ''undefined''"
    using nested by simp
  from one two three four five six own show ?thesis
    by blast
qed

subsection \<open>C6: a marketplace failure is isolated\<close>

text \<open>
  Claim C6 as stated: last_error embeds the raw response body. With a response of status 500
  whose body is the text Internal Server Error, which is not JSON, the last_error written
  is "ML 500 {}": the body does not occur in it.
\<close>

theorem raw_body_not_embedded:
  "r_text (plain_response 500 ''Internal Server Error'') = ''Internal Server Error''
   \<and> last_errors (snd (handler plain_outage_scenario post_request))
       = [(7, None), (7, Some ''ML 500 {}''), (9, None), (9, Some ''ML 500 {}'')]
   \<and> \<not> contains ''ML 500 {}'' (r_text (plain_response 500 ''Internal Server Error''))"
  by code_simp

text \<open>
  Claim C6, amended. The response a job is judged by is that of its public fetch, or, for a
  seller job answered 401 whose refresh returned, that of the retry. When this response has
  a non-success status, the job's row is set to error with last_error "ML", the status
  code and the serialization of the parsed body, which is {} when the body is not JSON; a
  failure entry with the job's id, its category, the status and the parsed body is appended
  to the results; and the loop goes on with the remaining jobs from that state. A seller
  job answered 401 whose refresh fails has no such response: the thrown error leaves the
  loop.
\<close>

theorem failed_response_marks_error:
  "(\<forall>r. fetch e (tr @ [processing_update e job tr]) (public_request (job_url site_id limit job)) = Inr r
        \<and> \<not> ok r \<and> \<not> (isSeller job \<and> r_status r = 401)
      \<longrightarrow> process_jobs e site_id limit (job # jobs) v tr =
            process_jobs e site_id limit jobs
              (v\<lparr>processed := Suc (processed v),
                 results := results v @
                   [JobFailed (j_id job) (j_category_id job) (r_status r) (json_or_empty r)]\<rparr>)
              (tr @ [processing_update e job tr, Fetch (public_request (job_url site_id limit job)),
                     UpdateJob (j_id job)
                       \<lparr>u_status = ''error'', u_attempts = None,
                        u_updated_at = now_iso e
                          (tr @ [processing_update e job tr,
                                 Fetch (public_request (job_url site_id limit job))]),
                        u_last_error = Some (''ML '' @ digits (r_status r) @ '' ''
                                               @ stringify (json_or_empty r))\<rparr>]))
   \<and> (\<forall>r1 rf tr2 r2.
         isSeller job
         \<and> fetch e (tr @ [processing_update e job tr]) (public_request (job_url site_id limit job)) = Inr r1
         \<and> r_status r1 = 401
         \<and> refreshToken e (refreshTok v)
             (tr @ [processing_update e job tr, Fetch (public_request (job_url site_id limit job))]) = (Inr rf, tr2)
         \<and> fetch e tr2 (private_request (job_url site_id limit job) (rf_access_token rf)) = Inr r2
         \<and> \<not> ok r2
      \<longrightarrow> process_jobs e site_id limit (job # jobs) v tr =
            process_jobs e site_id limit jobs
              (v\<lparr>processed := Suc (processed v),
                 accessToken := rf_access_token rf,
                 refreshTok := rf_refresh_token rf,
                 results := results v @
                   [JobFailed (j_id job) (j_category_id job) (r_status r2) (json_or_empty r2)]\<rparr>)
              (tr2 @ [Fetch (private_request (job_url site_id limit job) (rf_access_token rf)),
                      UpdateJob (j_id job)
                        \<lparr>u_status = ''error'', u_attempts = None,
                         u_updated_at = now_iso e
                           (tr2 @ [Fetch (private_request (job_url site_id limit job) (rf_access_token rf))]),
                         u_last_error = Some (''ML '' @ digits (r_status r2) @ '' ''
                                                @ stringify (json_or_empty r2))\<rparr>]))
   \<and> (\<forall>r1 err tr2.
         isSeller job
         \<and> fetch e (tr @ [processing_update e job tr]) (public_request (job_url site_id limit job)) = Inr r1
         \<and> r_status r1 = 401
         \<and> refreshToken e (refreshTok v)
             (tr @ [processing_update e job tr, Fetch (public_request (job_url site_id limit job))]) = (Inl err, tr2)
      \<longrightarrow> process_jobs e site_id limit (job # jobs) v tr = (Inl err, tr2))
   \<and> (\<forall>r. r_json r = None \<longrightarrow> stringify (json_or_empty r) = ''{}'')"
proof (intro conjI allI impI)
  fix r
  assume a: "fetch e (tr @ [processing_update e job tr]) (public_request (job_url site_id limit job)) = Inr r
        \<and> \<not> ok r \<and> \<not> (isSeller job \<and> r_status r = 401)"
  then have "fetch_listing e job (job_url site_id limit job) (v\<lparr>processed := Suc (processed v)\<rparr>)
               (tr @ [processing_update e job tr])
      = (Inr (r, v\<lparr>processed := Suc (processed v)\<rparr>),
         tr @ [processing_update e job tr, Fetch (public_request (job_url site_id limit job))])"
    by (auto simp: fetch_listing_def mlGetPublic_def)
  with a show "process_jobs e site_id limit (job # jobs) v tr =
            process_jobs e site_id limit jobs
              (v\<lparr>processed := Suc (processed v),
                 results := results v @
                   [JobFailed (j_id job) (j_category_id job) (r_status r) (json_or_empty r)]\<rparr>)
              (tr @ [processing_update e job tr, Fetch (public_request (job_url site_id limit job)),
                     UpdateJob (j_id job)
                       \<lparr>u_status = ''error'', u_attempts = None,
                        u_updated_at = now_iso e
                          (tr @ [processing_update e job tr,
                                 Fetch (public_request (job_url site_id limit job))]),
                        u_last_error = Some (''ML '' @ digits (r_status r) @ '' ''
                                               @ stringify (json_or_empty r))\<rparr>])"
    by (simp add: process_job_def finish_job_def error_update_def Let_def)
next
  fix r1 rf tr2 r2
  assume a: "isSeller job
         \<and> fetch e (tr @ [processing_update e job tr]) (public_request (job_url site_id limit job)) = Inr r1
         \<and> r_status r1 = 401
         \<and> refreshToken e (refreshTok v)
             (tr @ [processing_update e job tr, Fetch (public_request (job_url site_id limit job))]) = (Inr rf, tr2)
         \<and> fetch e tr2 (private_request (job_url site_id limit job) (rf_access_token rf)) = Inr r2
         \<and> \<not> ok r2"
  then have "fetch_listing e job (job_url site_id limit job) (v\<lparr>processed := Suc (processed v)\<rparr>)
               (tr @ [processing_update e job tr])
      = (Inr (r2, v\<lparr>processed := Suc (processed v),
                    accessToken := rf_access_token rf, refreshTok := rf_refresh_token rf\<rparr>),
         tr2 @ [Fetch (private_request (job_url site_id limit job) (rf_access_token rf))])"
    using fetch_listing_seller_401 [of job e "tr @ [processing_update e job tr]"
        "job_url site_id limit job" r1 "v\<lparr>processed := Suc (processed v)\<rparr>"]
    by simp
  with a show "process_jobs e site_id limit (job # jobs) v tr =
            process_jobs e site_id limit jobs
              (v\<lparr>processed := Suc (processed v),
                 accessToken := rf_access_token rf,
                 refreshTok := rf_refresh_token rf,
                 results := results v @
                   [JobFailed (j_id job) (j_category_id job) (r_status r2) (json_or_empty r2)]\<rparr>)
              (tr2 @ [Fetch (private_request (job_url site_id limit job) (rf_access_token rf)),
                      UpdateJob (j_id job)
                        \<lparr>u_status = ''error'', u_attempts = None,
                         u_updated_at = now_iso e
                           (tr2 @ [Fetch (private_request (job_url site_id limit job) (rf_access_token rf))]),
                         u_last_error = Some (''ML '' @ digits (r_status r2) @ '' ''
                                                @ stringify (json_or_empty r2))\<rparr>])"
    by (simp add: process_job_def finish_job_def error_update_def Let_def)
next
  fix r1 err tr2
  assume a: "isSeller job
         \<and> fetch e (tr @ [processing_update e job tr]) (public_request (job_url site_id limit job)) = Inr r1
         \<and> r_status r1 = 401
         \<and> refreshToken e (refreshTok v)
             (tr @ [processing_update e job tr, Fetch (public_request (job_url site_id limit job))]) = (Inl err, tr2)"
  then have "fetch_listing e job (job_url site_id limit job) (v\<lparr>processed := Suc (processed v)\<rparr>)
               (tr @ [processing_update e job tr]) = (Inl err, tr2)"
    using fetch_listing_seller_401 [of job e "tr @ [processing_update e job tr]"
        "job_url site_id limit job" r1 "v\<lparr>processed := Suc (processed v)\<rparr>"]
    by simp
  then show "process_jobs e site_id limit (job # jobs) v tr = (Inl err, tr2)"
    by (simp add: process_job_def)
next
  fix r :: fetch_response
  assume "r_json r = None"
  then show "stringify (json_or_empty r) = ''{}''"
    by (simp add: json_or_empty_def)
qed

text \<open>
  A body that is not JSON; a retry answered 500 with a JSON body; a denied refresh.
\<close>

theorem failed_response_marks_error_witness:
  \<open>map_sum (\<lambda>err. ()) results (fst (process_jobs plain_outage_scenario ''MLC'' 50 [job7, job9] vars0 []))
     = Inr [JobFailed 7 ''MLC1234'' 500 (JObj []), JobFailed 9 ''SELLER:555'' 500 (JObj [])]
   \<and> last_errors (snd (process_jobs plain_outage_scenario ''MLC'' 50 [job7, job9] vars0 []))
     = [(7, None), (7, Some ''ML 500 {}''), (9, None), (9, Some ''ML 500 {}'')]
   \<and> map_sum (\<lambda>err. ()) results (fst (process_jobs retry_outage_scenario ''MLC'' 50 [job9, job7] vars0 []))
     = Inr [JobFailed 9 ''SELLER:555'' 500 (JObj [(''error'', JStr ''boom'')]),
            JobFailed 7 ''MLC1234'' 401 (JObj [(''message'', JStr ''unauthorized'')])]
   \<and> last_errors (snd (process_jobs retry_outage_scenario ''MLC'' 50 [job9, job7] vars0 []))
     = [(9, None), (9, Some ''ML 500 {"error":"boom"}''),
        (7, None), (7, Some ''ML 401 {"message":"unauthorized"}'')]
   \<and> isl (fst (process_jobs refresh_denied_scenario ''MLC'' 50 [job9, job10] vars0 []))\<close>
proof -
  let ?plain = "plain_response 500 ''Internal Server Error''"
  let ?boom = "response 500 (JObj [(''error'', JStr ''boom'')])"
  let ?url7 = "job_url ''MLC'' 50 job7"
  let ?url9 = "job_url ''MLC'' 50 job9"
  let ?rf = "\<lparr>rf_access_token = ''AT2'', rf_refresh_token = ''RT2'',
              rf_expires_at = ''2024-05-01T18:00:00.000Z''\<rparr>"
  let ?tr2 = "[processing_update retry_outage_scenario job9 [], Fetch (public_request ?url9),
               Fetch (refresh_request retry_outage_scenario ''RT1''),
               UpsertToken \<lparr>w_user_id = Some ''42'', w_access_token = ''AT2'', w_refresh_token = ''RT2'',
                            w_token_type = JStr ''Bearer'', w_scope = None,
                            w_expires_at = ''2024-05-01T18:00:00.000Z'',
                            w_updated_at = ''2024-05-01T12:00:00.000Z''\<rparr>]"
  have seller: "isSeller job9" and category: "\<not> isSeller job7"
    by code_simp+
  have bad: "\<not> ok ?plain" "\<not> ok ?boom" and unauth: "r_status unauthorized = 401"
    by code_simp+
  have first_plain: "fetch plain_outage_scenario ([] @ [processing_update plain_outage_scenario job7 []])
                       (public_request ?url7) = Inr ?plain"
    by (simp add: plain_outage_scenario_def scenario_def public_request_def)
  note plain = failed_response_marks_error [where e = plain_outage_scenario and tr = "[]" and job = job7
      and site_id = "''MLC''" and limit = 50 and jobs = "[job9]" and v = vars0]
  from plain first_plain bad category
  have step_plain: "process_jobs plain_outage_scenario ''MLC'' 50 [job7, job9] vars0 [] =
      process_jobs plain_outage_scenario ''MLC'' 50 [job9]
        (vars0\<lparr>processed := Suc (processed vars0),
                results := results vars0 @
                  [JobFailed (j_id job7) (j_category_id job7) (r_status ?plain) (json_or_empty ?plain)]\<rparr>)
        ([] @ [processing_update plain_outage_scenario job7 [], Fetch (public_request ?url7),
               UpdateJob (j_id job7)
                 \<lparr>u_status = ''error'', u_attempts = None,
                  u_updated_at = now_iso plain_outage_scenario
                    ([] @ [processing_update plain_outage_scenario job7 [], Fetch (public_request ?url7)]),
                  u_last_error = Some (''ML '' @ digits (r_status ?plain) @ '' ''
                                         @ stringify (json_or_empty ?plain))\<rparr>])"
    by blast
  have rest_plain: "map_sum (\<lambda>err. ()) results (fst (process_jobs plain_outage_scenario ''MLC'' 50 [job9]
        (vars0\<lparr>processed := Suc (processed vars0),
                results := results vars0 @
                  [JobFailed (j_id job7) (j_category_id job7) (r_status ?plain) (json_or_empty ?plain)]\<rparr>)
        ([] @ [processing_update plain_outage_scenario job7 [], Fetch (public_request ?url7),
               UpdateJob (j_id job7)
                 \<lparr>u_status = ''error'', u_attempts = None,
                  u_updated_at = now_iso plain_outage_scenario
                    ([] @ [processing_update plain_outage_scenario job7 [], Fetch (public_request ?url7)]),
                  u_last_error = Some (''ML '' @ digits (r_status ?plain) @ '' ''
                                         @ stringify (json_or_empty ?plain))\<rparr>])))
      = Inr [JobFailed 7 ''MLC1234'' 500 (JObj []), JobFailed 9 ''SELLER:555'' 500 (JObj [])]"
    and errors_plain: "last_errors (snd (process_jobs plain_outage_scenario ''MLC'' 50 [job9]
        (vars0\<lparr>processed := Suc (processed vars0),
                results := results vars0 @
                  [JobFailed (j_id job7) (j_category_id job7) (r_status ?plain) (json_or_empty ?plain)]\<rparr>)
        ([] @ [processing_update plain_outage_scenario job7 [], Fetch (public_request ?url7),
               UpdateJob (j_id job7)
                 \<lparr>u_status = ''error'', u_attempts = None,
                  u_updated_at = now_iso plain_outage_scenario
                    ([] @ [processing_update plain_outage_scenario job7 [], Fetch (public_request ?url7)]),
                  u_last_error = Some (''ML '' @ digits (r_status ?plain) @ '' ''
                                         @ stringify (json_or_empty ?plain))\<rparr>])))
      = [(7, None), (7, Some ''ML 500 {}''), (9, None), (9, Some ''ML 500 {}'')]"
    by code_simp+
  have one: "map_sum (\<lambda>err. ()) results (fst (process_jobs plain_outage_scenario ''MLC'' 50 [job7, job9] vars0 []))
     = Inr [JobFailed 7 ''MLC1234'' 500 (JObj []), JobFailed 9 ''SELLER:555'' 500 (JObj [])]"
    and two: "last_errors (snd (process_jobs plain_outage_scenario ''MLC'' 50 [job7, job9] vars0 []))
     = [(7, None), (7, Some ''ML 500 {}''), (9, None), (9, Some ''ML 500 {}'')]"
    unfolding step_plain by (rule rest_plain, rule errors_plain)
  have first_retry: "fetch retry_outage_scenario ([] @ [processing_update retry_outage_scenario job9 []])
                       (public_request ?url9) = Inr unauthorized"
    by (simp add: retry_outage_scenario_def scenario_def public_request_def)
  have refreshed: "refreshToken retry_outage_scenario (refreshTok vars0)
       ([] @ [processing_update retry_outage_scenario job9 [], Fetch (public_request ?url9)]) = (Inr ?rf, ?tr2)"
    by code_simp
  have again: "fetch retry_outage_scenario ?tr2 (private_request ?url9 (rf_access_token ?rf)) = Inr ?boom"
    by (simp add: retry_outage_scenario_def scenario_def private_request_def)
  note retry = failed_response_marks_error [where e = retry_outage_scenario and tr = "[]" and job = job9
      and site_id = "''MLC''" and limit = 50 and jobs = "[job7]" and v = vars0]
  from retry seller first_retry unauth refreshed again bad
  have step_retry: "process_jobs retry_outage_scenario ''MLC'' 50 [job9, job7] vars0 [] =
      process_jobs retry_outage_scenario ''MLC'' 50 [job7]
        (vars0\<lparr>processed := Suc (processed vars0),
                accessToken := rf_access_token ?rf,
                refreshTok := rf_refresh_token ?rf,
                results := results vars0 @
                  [JobFailed (j_id job9) (j_category_id job9) (r_status ?boom) (json_or_empty ?boom)]\<rparr>)
        (?tr2 @ [Fetch (private_request ?url9 (rf_access_token ?rf)),
                 UpdateJob (j_id job9)
                   \<lparr>u_status = ''error'', u_attempts = None,
                    u_updated_at = now_iso retry_outage_scenario
                      (?tr2 @ [Fetch (private_request ?url9 (rf_access_token ?rf))]),
                    u_last_error = Some (''ML '' @ digits (r_status ?boom) @ '' ''
                                           @ stringify (json_or_empty ?boom))\<rparr>])"
    by blast
  have rest_retry: "map_sum (\<lambda>err. ()) results (fst (process_jobs retry_outage_scenario ''MLC'' 50 [job7]
        (vars0\<lparr>processed := Suc (processed vars0),
                accessToken := rf_access_token ?rf,
                refreshTok := rf_refresh_token ?rf,
                results := results vars0 @
                  [JobFailed (j_id job9) (j_category_id job9) (r_status ?boom) (json_or_empty ?boom)]\<rparr>)
        (?tr2 @ [Fetch (private_request ?url9 (rf_access_token ?rf)),
                 UpdateJob (j_id job9)
                   \<lparr>u_status = ''error'', u_attempts = None,
                    u_updated_at = now_iso retry_outage_scenario
                      (?tr2 @ [Fetch (private_request ?url9 (rf_access_token ?rf))]),
                    u_last_error = Some (''ML '' @ digits (r_status ?boom) @ '' ''
                                           @ stringify (json_or_empty ?boom))\<rparr>])))
      = Inr [JobFailed 9 ''SELLER:555'' 500 (JObj [(''error'', JStr ''boom'')]),
             JobFailed 7 ''MLC1234'' 401 (JObj [(''message'', JStr ''unauthorized'')])]"
    and errors_retry: \<open>last_errors (snd (process_jobs retry_outage_scenario ''MLC'' 50 [job7]
        (vars0\<lparr>processed := Suc (processed vars0),
                accessToken := rf_access_token ?rf,
                refreshTok := rf_refresh_token ?rf,
                results := results vars0 @
                  [JobFailed (j_id job9) (j_category_id job9) (r_status ?boom) (json_or_empty ?boom)]\<rparr>)
        (?tr2 @ [Fetch (private_request ?url9 (rf_access_token ?rf)),
                 UpdateJob (j_id job9)
                   \<lparr>u_status = ''error'', u_attempts = None,
                    u_updated_at = now_iso retry_outage_scenario
                      (?tr2 @ [Fetch (private_request ?url9 (rf_access_token ?rf))]),
                    u_last_error = Some (''ML '' @ digits (r_status ?boom) @ '' ''
                                           @ stringify (json_or_empty ?boom))\<rparr>])))
      = [(9, None), (9, Some ''ML 500 {"error":"boom"}''),
         (7, None), (7, Some ''ML 401 {"message":"unauthorized"}'')]\<close>
    by code_simp+
  have three: "map_sum (\<lambda>err. ()) results (fst (process_jobs retry_outage_scenario ''MLC'' 50 [job9, job7] vars0 []))
     = Inr [JobFailed 9 ''SELLER:555'' 500 (JObj [(''error'', JStr ''boom'')]),
            JobFailed 7 ''MLC1234'' 401 (JObj [(''message'', JStr ''unauthorized'')])]"
    and four: \<open>last_errors (snd (process_jobs retry_outage_scenario ''MLC'' 50 [job9, job7] vars0 []))
     = [(9, None), (9, Some ''ML 500 {"error":"boom"}''),
        (7, None), (7, Some ''ML 401 {"message":"unauthorized"}'')]\<close>
    unfolding step_retry by (rule rest_retry, rule errors_retry)
  have first_denied: "fetch refresh_denied_scenario ([] @ [processing_update refresh_denied_scenario job9 []])
                       (public_request ?url9) = Inr unauthorized"
    by (simp add: refresh_denied_scenario_def scenario_def public_request_def)
  have "isl (fst (refreshToken refresh_denied_scenario (refreshTok vars0)
               ([] @ [processing_update refresh_denied_scenario job9 [], Fetch (public_request ?url9)])))"
    by code_simp
  then obtain err where "fst (refreshToken refresh_denied_scenario (refreshTok vars0)
               ([] @ [processing_update refresh_denied_scenario job9 [], Fetch (public_request ?url9)])) = Inl err"
    by (cases "fst (refreshToken refresh_denied_scenario (refreshTok vars0)
               ([] @ [processing_update refresh_denied_scenario job9 [], Fetch (public_request ?url9)]))") simp_all
  then obtain tr3 where refused:
    "refreshToken refresh_denied_scenario (refreshTok vars0)
       ([] @ [processing_update refresh_denied_scenario job9 [], Fetch (public_request ?url9)]) = (Inl err, tr3)"
    by (cases "refreshToken refresh_denied_scenario (refreshTok vars0)
                 ([] @ [processing_update refresh_denied_scenario job9 [], Fetch (public_request ?url9)])") simp
  note denied = failed_response_marks_error [where e = refresh_denied_scenario and tr = "[]" and job = job9
      and site_id = "''MLC''" and limit = 50 and jobs = "[job10]" and v = vars0]
  from denied seller first_denied unauth refused
  have "process_jobs refresh_denied_scenario ''MLC'' 50 [job9, job10] vars0 [] = (Inl err, tr3)"
    by blast
  then have five: "isl (fst (process_jobs refresh_denied_scenario ''MLC'' 50 [job9, job10] vars0 []))"
    by simp
  from one two three four five show ?thesis
    by blast
qed

subsection \<open>C7: no pending job\<close>

text \<open>
  Claim C7. When the query for pending jobs of the requested site returns no row, the reply
  is the success {ok: true, msg: "no_jobs", site_id, batch, limit} and the query is the only
  call made: nothing is written to the database.
\<close>

theorem no_jobs_no_mutation:
  assumes "q_method req = ''POST''"
    and "resolve_site_id (body_of req) = Inr site_id"
    and "batch = batch_of (body_of req)"
    and "select_jobs e [] site_id batch = Inr None \<or> select_jobs e [] site_id batch = Inr (Some [])"
  shows "handler e req = (Inr (200, NoJobs site_id batch (limit_of (body_of req))), [SelectJobs site_id batch])
       \<and> filter is_mutation (snd (handler e req)) = []"
  using assms by (auto simp: handler_def Let_def)

text \<open>
  The idle scenario, asked with batch 2 and limit 10.
\<close>

theorem no_jobs_no_mutation_witness:
  "q_method bearer_request = ''POST''
   \<and> select_jobs idle_scenario [] ''MLC'' 2 = Inr (Some [])
   \<and> handler idle_scenario bearer_request = (Inr (200, NoJobs ''MLC'' 2 10), [SelectJobs ''MLC'' 2])
   \<and> filter is_mutation (snd (handler idle_scenario bearer_request)) = []"
proof -
  have post: "q_method bearer_request = ''POST''"
    by code_simp
  have site: "resolve_site_id (body_of bearer_request) = Inr ''MLC''"
    and batch: "2 = batch_of (body_of bearer_request)"
    and limit: "limit_of (body_of bearer_request) = 10"
    by code_simp+
  have idle: "select_jobs idle_scenario [] ''MLC'' 2 = Inr (Some [])"
    by (simp add: idle_scenario_def scenario_def)
  from no_jobs_no_mutation [OF post site batch disjI2 [OF idle]] post idle show ?thesis
    by (simp add: limit)
qed

subsection \<open>C8: an error that leaves the invocation\<close>

text \<open>
  Claim C8 as stated: no job's status is touched by an aborted invocation except those of
  the jobs finalized before the abort. With a category job answered 401 and a seller job
  whose refresh is denied, the invocation ends in the failure reply, job 7 is finalized and
  job 9 is left in status processing.
\<close>

theorem refresh_failure_strands_job:
  "fst (handler refresh_denied_scenario post_request)
     = Inr (500, Failure (''Refresh token failed: 400 '' @ stringify (JObj [(''error'', JStr ''invalid_grant'')])))
   \<and> \<not> touched_jobs_finalized (snd (handler refresh_denied_scenario post_request))
   \<and> job_status_writes (snd (handler refresh_denied_scenario post_request))
       = [(7, ''processing''), (7, ''error''), (9, ''processing'')]"
  by code_simp

text \<open>
  Claim C8, amended. A value thrown while the credential is resolved or while a job is
  processed ends the invocation with status 500 and the body {ok: false, error: message}.
  When it is thrown by the credential lookup no job's row has been written. When it is
  thrown while a job is processed, the jobs before it have been set to processing and then
  to done or error, that job has been set to processing and is left so, and the jobs after
  it have not been written.
\<close>

theorem abort_leaves_current_job_processing:
  assumes post: "q_method req = ''POST''"
    and site: "resolve_site_id (body_of req) = Inr site_id"
    and batch: "batch = batch_of (body_of req)"
    and limit: "limit = limit_of (body_of req)"
    and pending: "select_jobs e [] site_id batch = Inr (Some jobs)"
    and some: "jobs \<noteq> []"
  shows "(\<forall>err tr1. resolve_tokens e req [SelectJobs site_id batch] = (Inl err, tr1)
            \<longrightarrow> handler e req = (Inr (500, Failure (catch_message err)), tr1)
                \<and> job_status_writes tr1 = [])
       \<and> (\<forall>src at rt tr1 err tr2.
             resolve_tokens e req [SelectJobs site_id batch] = (Inr (src, at, rt), tr1)
             \<and> process_jobs e site_id limit jobs (initial_vars at rt) tr1 = (Inl err, tr2)
            \<longrightarrow> handler e req = (Inr (500, Failure (catch_message err)), tr2)
                \<and> aborted_writes jobs (job_status_writes tr2))"
proof (intro conjI allI impI)
  fix err tr1
  assume failed: "resolve_tokens e req [SelectJobs site_id batch] = (Inl err, tr1)"
  have "tr1 = [SelectJobs site_id batch, SelectLatestToken]"
    using resolve_tokens_trace [of e req "[SelectJobs site_id batch]"] failed by simp
  then show "job_status_writes tr1 = []"
    by simp
  show "handler e req = (Inr (500, Failure (catch_message err)), tr1)"
    using post pending some failed
    by (simp add: handler_def Let_def site batch [symmetric])
next
  fix src at rt tr1 err tr2
  assume run: "resolve_tokens e req [SelectJobs site_id batch] = (Inr (src, at, rt), tr1)
       \<and> process_jobs e site_id limit jobs (initial_vars at rt) tr1 = (Inl err, tr2)"
  have tr1: "tr1 = [SelectJobs site_id batch, SelectLatestToken]"
    using resolve_tokens_trace [of e req "[SelectJobs site_id batch]"] run by simp
  have "tr2 = tr1 @ batch_calls e site_id limit jobs (initial_vars at rt) tr1"
    using process_jobs_extends [of e site_id limit jobs "initial_vars at rt" tr1] run by simp
  then have "job_status_writes tr2
      = job_status_writes (batch_calls e site_id limit jobs (initial_vars at rt) tr1)"
    by (simp add: tr1 job_status_writes_append)
  moreover have "aborted_writes jobs
      (job_status_writes (batch_calls e site_id limit jobs (initial_vars at rt) tr1))"
    using aborted_batch_writes [of e site_id limit jobs "initial_vars at rt" tr1 err] run by simp
  ultimately show "aborted_writes jobs (job_status_writes tr2)"
    by simp
  show "handler e req = (Inr (500, Failure (catch_message err)), tr2)"
    using post pending some run
    by (simp add: handler_def Let_def site batch [symmetric] limit [symmetric])
qed

text \<open>
  No stored credential; and a denied refresh in the second of three jobs.
\<close>

theorem abort_leaves_current_job_processing_witness:
  "q_method post_request = ''POST''
   \<and> select_jobs no_credential_scenario [] ''MLC'' 5 = Inr (Some [job7])
   \<and> handler no_credential_scenario post_request
       = (Inr (500, Failure ''No token found in meli_oauth_tokens (missing access_token or refresh_token)''),
          [SelectJobs ''MLC'' 5, SelectLatestToken])
   \<and> select_jobs refresh_denied_scenario [] ''MLC'' 5 = Inr (Some [job7, job9, job10])
   \<and> map_sum (\<lambda>err. ()) fst (fst (handler refresh_denied_scenario post_request)) = Inr 500
   \<and> aborted_writes [job7, job9, job10] (job_status_writes (snd (handler refresh_denied_scenario post_request)))"
proof -
  have post: "q_method post_request = ''POST''"
    by code_simp
  have site: "resolve_site_id (body_of post_request) = Inr ''MLC''"
    and batch: "5 = batch_of (body_of post_request)"
    and limit: "50 = limit_of (body_of post_request)"
    by code_simp+
  have none: "select_jobs no_credential_scenario [] ''MLC'' 5 = Inr (Some [job7])"
    by (simp add: no_credential_scenario_def scenario_def)
  have lookup: "resolve_tokens no_credential_scenario post_request [SelectJobs ''MLC'' 5]
      = (Inl (js_Error ''No token found in meli_oauth_tokens (missing access_token or refresh_token)''),
         [SelectJobs ''MLC'' 5, SelectLatestToken])"
    by code_simp
  have shown: "catch_message (js_Error ''No token found in meli_oauth_tokens (missing access_token or refresh_token)'')
      = ''No token found in meli_oauth_tokens (missing access_token or refresh_token)''"
    by code_simp
  from abort_leaves_current_job_processing [OF post site batch limit none] lookup
  have first: "handler no_credential_scenario post_request
       = (Inr (500, Failure ''No token found in meli_oauth_tokens (missing access_token or refresh_token)''),
          [SelectJobs ''MLC'' 5, SelectLatestToken])"
    by (simp add: shown)
  have three: "select_jobs refresh_denied_scenario [] ''MLC'' 5 = Inr (Some [job7, job9, job10])"
    by (simp add: refresh_denied_scenario_def scenario_def)
  have tokens: "resolve_tokens refresh_denied_scenario post_request [SelectJobs ''MLC'' 5]
      = (Inr (''db'', ''AT1'', ''RT1''), [SelectJobs ''MLC'' 5, SelectLatestToken])"
    by code_simp
  have "isl (fst (process_jobs refresh_denied_scenario ''MLC'' 50 [job7, job9, job10]
                    (initial_vars ''AT1'' ''RT1'') [SelectJobs ''MLC'' 5, SelectLatestToken]))"
    by code_simp
  then obtain err where "fst (process_jobs refresh_denied_scenario ''MLC'' 50 [job7, job9, job10]
                    (initial_vars ''AT1'' ''RT1'') [SelectJobs ''MLC'' 5, SelectLatestToken]) = Inl err"
    by (cases "fst (process_jobs refresh_denied_scenario ''MLC'' 50 [job7, job9, job10]
                    (initial_vars ''AT1'' ''RT1'') [SelectJobs ''MLC'' 5, SelectLatestToken])") simp_all
  then obtain tr2 where aborted: "process_jobs refresh_denied_scenario ''MLC'' 50 [job7, job9, job10]
                    (initial_vars ''AT1'' ''RT1'') [SelectJobs ''MLC'' 5, SelectLatestToken] = (Inl err, tr2)"
    by (cases "process_jobs refresh_denied_scenario ''MLC'' 50 [job7, job9, job10]
                    (initial_vars ''AT1'' ''RT1'') [SelectJobs ''MLC'' 5, SelectLatestToken]") simp
  from abort_leaves_current_job_processing [OF post site batch limit three] tokens aborted
  have second: "handler refresh_denied_scenario post_request = (Inr (500, Failure (catch_message err)), tr2)
      \<and> aborted_writes [job7, job9, job10] (job_status_writes tr2)"
    by blast
  from post none first three second show ?thesis
    by simp
qed

subsection \<open>C9: the default site\<close>

text \<open>
  Claim C9. When the body has no site_id, the resolved site_id is "MLC" whatever the
  country field holds, and "MLC" is the site the jobs are queried for.
\<close>

theorem default_site_ignores_country:
  assumes "b_site_id body = None"
  shows "resolve_site_id body = Inr ''MLC''
       \<and> resolve_site_id (body\<lparr>b_country := c\<rparr>) = Inr ''MLC''
       \<and> (\<forall>e req. q_method req = ''POST'' \<and> body_of req = body
             \<longrightarrow> take 1 (snd (handler e req)) = [SelectJobs ''MLC'' (batch_of body)])"
proof -
  have site: "resolve_site_id body = Inr ''MLC''"
    using assms by (simp add: resolve_site_id_def)
  moreover have "resolve_site_id (body\<lparr>b_country := c\<rparr>) = Inr ''MLC''"
    using assms by (simp add: resolve_site_id_def)
  moreover have "take 1 (snd (handler e req)) = [SelectJobs ''MLC'' (batch_of body)]"
    if "q_method req = ''POST'' \<and> body_of req = body" for e req
    using handler_first_call [of req "''MLC''" e] that site by simp
  ultimately show ?thesis
    by blast
qed

text \<open>
  A body with country AR, and the same body with country CL.
\<close>

theorem default_site_ignores_country_witness:
  "b_site_id (body_of bearer_request) = None
   \<and> b_country (body_of bearer_request) = Some (JStr ''AR'')
   \<and> resolve_site_id (body_of bearer_request) = Inr ''MLC''
   \<and> resolve_site_id ((body_of bearer_request)\<lparr>b_country := Some (JStr ''CL'')\<rparr>) = Inr ''MLC''
   \<and> take 1 (snd (handler idle_scenario bearer_request)) = [SelectJobs ''MLC'' 2]"
proof -
  have absent: "b_site_id (body_of bearer_request) = None"
    by code_simp
  have country: "b_country (body_of bearer_request) = Some (JStr ''AR'')"
    by code_simp
  have post: "q_method bearer_request = ''POST''"
    by code_simp
  have batch: "batch_of (body_of bearer_request) = 2"
    by code_simp
  from default_site_ignores_country [OF absent, of "Some (JStr ''CL'')"] post
  have "resolve_site_id (body_of bearer_request) = Inr ''MLC''
      \<and> resolve_site_id ((body_of bearer_request)\<lparr>b_country := Some (JStr ''CL'')\<rparr>) = Inr ''MLC''
      \<and> take 1 (snd (handler idle_scenario bearer_request)) = [SelectJobs ''MLC'' 2]"
    by (simp add: batch)
  with absent country show ?thesis
    by blast
qed

subsection \<open>C10: a bearer credential does not replace the stored one\<close>

text \<open>
  Claim C10. When the request carries a bearer credential and there is a pending job, the
  latest stored credential is still looked up; when there is none, or it lacks its access
  token or its refresh token, the invocation ends with status 500 and the error "No token
  found in meli_oauth_tokens (missing access_token or refresh_token)", before any job is
  touched.
\<close>

theorem bearer_still_needs_stored_credential:
  assumes "q_method req = ''POST''"
    and "resolve_site_id (body_of req) = Inr site_id"
    and "batch = batch_of (body_of req)"
    and "select_jobs e [] site_id batch = Inr (Some jobs)"
    and "jobs \<noteq> []"
    and "incomingBearer req \<noteq> []"
    and "no_usable_token (select_latest_token e [SelectJobs site_id batch])"
  shows "handler e req =
           (Inr (500, Failure ''No token found in meli_oauth_tokens (missing access_token or refresh_token)''),
            [SelectJobs site_id batch, SelectLatestToken])"
proof -
  have "resolve_tokens e req [SelectJobs site_id batch]
      = (Inl (js_Error ''No token found in meli_oauth_tokens (missing access_token or refresh_token)''),
         [SelectJobs site_id batch, SelectLatestToken])"
    using assms(6,7)
    by (cases "select_latest_token e [SelectJobs site_id batch]" rule: no_usable_token.cases)
       (auto simp: resolve_tokens_def getLatestToken_def)
  then show ?thesis
    using assms(1-5)
    by (simp add: handler_def Let_def catch_message_def js_Error_def)
qed

text \<open>
  A bearer request against a credential table without rows.
\<close>

theorem bearer_still_needs_stored_credential_witness:
  "q_method bearer_request = ''POST''
   \<and> select_jobs no_credential_scenario [] ''MLC'' 2 = Inr (Some [job7])
   \<and> incomingBearer bearer_request = ''Bearer CALLER''
   \<and> no_usable_token (select_latest_token no_credential_scenario [SelectJobs ''MLC'' 2])
   \<and> handler no_credential_scenario bearer_request =
       (Inr (500, Failure ''No token found in meli_oauth_tokens (missing access_token or refresh_token)''),
        [SelectJobs ''MLC'' 2, SelectLatestToken])"
proof -
  have post: "q_method bearer_request = ''POST''"
    by code_simp
  have site: "resolve_site_id (body_of bearer_request) = Inr ''MLC''"
    and batch: "2 = batch_of (body_of bearer_request)"
    by code_simp+
  have pending: "select_jobs no_credential_scenario [] ''MLC'' 2 = Inr (Some [job7])"
    by (simp add: no_credential_scenario_def scenario_def)
  have some: "[job7] \<noteq> []"
    by simp
  have bearer: "incomingBearer bearer_request = ''Bearer CALLER''"
    by code_simp
  then have given: "incomingBearer bearer_request \<noteq> []"
    by simp
  have none: "no_usable_token (select_latest_token no_credential_scenario [SelectJobs ''MLC'' 2])"
    by (simp add: no_credential_scenario_def scenario_def)
  from bearer_still_needs_stored_credential [OF post site batch pending some given none]
    post pending bearer none
  show ?thesis
    by blast
qed

end
